theory Spec2Isabelle
  imports Complex_Main "HOL-Library.Sublist"
begin

section \<open>JavaScript values and string primitives\<close>

text \<open>
  A JavaScript string is modelled as a \<^typ>\<open>string\<close>: the list of its code units, restricted
  to the code units below 256 (Latin-1). The functions below embed the built-in methods the
  sources call, with the semantics ECMAScript gives them.
\<close>

text \<open>\<^verbatim>\<open>s.includes(sub)\<close>: some suffix of the receiver starts with the argument.\<close>

fun str_includes :: "string \<Rightarrow> string \<Rightarrow> bool" where
  "str_includes [] sub = (sub = [])"
| "str_includes (c # cs) sub = (prefix sub (c # cs) \<or> str_includes cs sub)"

text \<open>\<^verbatim>\<open>s.indexOf(sub)\<close>, with \<open>None\<close> for \<open>-1\<close>.\<close>

fun indexOf :: "string \<Rightarrow> string \<Rightarrow> nat option" where
  "indexOf [] sub = (if sub = [] then Some 0 else None)"
| "indexOf (c # cs) sub =
     (if prefix sub (c # cs) then Some 0 else map_option Suc (indexOf cs sub))"

text \<open>
  The abstract operation \<open>GetSubstitution\<close> of ECMAScript for a string search value
  (no capture groups, no named groups): in the replacement template \<open>$$\<close> stands for a
  dollar sign, \<open>$&\<close> for the matched text, \<open>$`\<close> for the text before the match and
  \<open>$'\<close> for the text after it; every other code unit, also a dollar sign followed by
  anything else, stands for itself.
\<close>

fun getSubstitution :: "string \<Rightarrow> string \<Rightarrow> nat \<Rightarrow> string \<Rightarrow> string" where
  "getSubstitution matched str position (c # d # rest) =
     (if c = CHR ''$'' \<and> d = CHR ''$'' then
        CHR ''$'' # getSubstitution matched str position rest
      else if c = CHR ''$'' \<and> d = CHR ''&'' then
        matched @ getSubstitution matched str position rest
      else if c = CHR ''$'' \<and> d = CHR 0x60 then
        take position str @ getSubstitution matched str position rest
      else if c = CHR ''$'' \<and> d = CHR 0x27 then
        drop (position + length matched) str @ getSubstitution matched str position rest
      else c # getSubstitution matched str position (d # rest))"
| "getSubstitution matched str position template = template"

text \<open>
  \<^verbatim>\<open>s.replace(searchValue, replaceValue)\<close> with both arguments strings: the first
  occurrence of \<open>searchValue\<close>, if there is one, is replaced by the expansion of the
  template \<open>replaceValue\<close>.
\<close>

definition str_replace :: "string \<Rightarrow> string \<Rightarrow> string \<Rightarrow> string" where
  "str_replace s searchValue replaceValue =
     (case indexOf s searchValue of
        None \<Rightarrow> s
      | Some position \<Rightarrow>
          take position s @ getSubstitution searchValue s position replaceValue
            @ drop (position + length searchValue) s)"

text \<open>
  \<^verbatim>\<open>s.substring(0, n)\<close> and \<^verbatim>\<open>s.substring(n)\<close> for an integer \<open>n\<close>: a negative
  index counts as 0 and an index beyond the end as the length.
\<close>

definition substring_to :: "string \<Rightarrow> int \<Rightarrow> string" where
  "substring_to s n = take (nat n) s"

definition substring_from :: "string \<Rightarrow> int \<Rightarrow> string" where
  "substring_from s n = drop (nat n) s"

text \<open>
  \<^verbatim>\<open>s.trim()\<close>: white space and line terminators are removed at both ends. Among the
  code units below 256 these are TAB, LF, VT, FF, CR, SPACE and NBSP.
\<close>

definition isWhiteSpace :: "char \<Rightarrow> bool" where
  "isWhiteSpace c \<longleftrightarrow>
     c = CHR 0x09 \<or> c = CHR 0x0A \<or> c = CHR 0x0B \<or> c = CHR 0x0C \<or> c = CHR 0x0D
     \<or> c = CHR 0x20 \<or> c = CHR 0xA0"

definition trim :: "string \<Rightarrow> string" where
  "trim s = rev (dropWhile isWhiteSpace (rev (dropWhile isWhiteSpace s)))"

text \<open>
  \<^verbatim>\<open>s.toLowerCase()\<close> on the code units below 256: the letters A to Z and the Latin-1
  capitals (0xC0 to 0xDE without the multiplication sign 0xD7) move up by 32.
\<close>

definition lowerChar :: "char \<Rightarrow> char" where
  "lowerChar c =
     (let n = (of_char c :: nat) in
      if (65 \<le> n \<and> n \<le> 90) \<or> (192 \<le> n \<and> n \<le> 222 \<and> n \<noteq> 215)
      then char_of (n + 32) else c)"

definition toLowerCase :: "string \<Rightarrow> string" where
  "toLowerCase s = map lowerChar s"

text \<open>Truthiness of a string, and of an optional string (\<open>None\<close> is \<open>undefined\<close>).\<close>

definition truthy_str :: "string \<Rightarrow> bool" where
  "truthy_str s \<longleftrightarrow> s \<noteq> []"

definition truthy_opt :: "string option \<Rightarrow> bool" where
  "truthy_opt v = (case v of None \<Rightarrow> False | Some s \<Rightarrow> truthy_str s)"

text \<open>\<^verbatim>\<open>a || b\<close> for an optional string \<open>a\<close> and a string \<open>b\<close>.\<close>

definition or_else :: "string option \<Rightarrow> string \<Rightarrow> string" where
  "or_else a b = (case a of None \<Rightarrow> b | Some s \<Rightarrow> if truthy_str s then s else b)"

text \<open>Decimal digits of a natural number, as \<^verbatim>\<open>String(n)\<close> prints them.\<close>

fun digits :: "nat \<Rightarrow> string" where
  "digits n = (if n < 10 then [char_of (48 + n)] else digits (n div 10) @ [char_of (48 + n mod 10)])"

declare digits.simps [simp del]

subsection \<open>JSON values\<close>

text \<open>
  The result of \<^verbatim>\<open>JSON.parse\<close>. An object lists its properties; a key that is looked
  up and not found gives \<open>undefined\<close>, here \<open>None\<close>.
\<close>

datatype json =
    JNull
  | JBool bool
  | JNumber rat
  | JString string
  | JArray "json list"
  | JObject "(string \<times> json) list"

text \<open>Truthiness of a property value that may be \<open>undefined\<close>.\<close>

fun truthy :: "json option \<Rightarrow> bool" where
  "truthy None = False"
| "truthy (Some JNull) = False"
| "truthy (Some (JBool b)) = b"
| "truthy (Some (JNumber r)) = (r \<noteq> 0)"
| "truthy (Some (JString s)) = (s \<noteq> [])"
| "truthy (Some (JArray xs)) = True"
| "truthy (Some (JObject ps)) = True"

text \<open>
  Reading the property \<open>key\<close> of a parsed value: \<open>Inl ()\<close> is the \<open>TypeError\<close> that
  reading a property of \<open>null\<close> throws; a value that is not an object has none of the
  properties the sources read.
\<close>

fun getProp :: "json \<Rightarrow> string \<Rightarrow> unit + json option" where
  "getProp JNull key = Inl ()"
| "getProp (JObject ps) key = Inr (map_of ps key)"
| "getProp v key = Inr None"

text \<open>
  The abstract operation \<open>ToString\<close> on what \<^verbatim>\<open>JSON.parse\<close> can return, and on
  \<open>undefined\<close> (\<open>None\<close>); \<open>Inl ()\<close> is a thrown \<open>TypeError\<close>. \<^verbatim>\<open>Number::toString\<close> is a
  parameter. An array is joined with commas, \<open>null\<close> elements counting as empty. An
  object has the methods of \<^verbatim>\<open>Object.prototype\<close>, so it converts to \<open>[object Object]\<close>,
  unless it has a property \<open>toString\<close> of its own: that property is not callable, the
  inherited \<^verbatim>\<open>valueOf\<close> returns the object, and the conversion throws.
\<close>

fun ToString_json :: "(rat \<Rightarrow> string) \<Rightarrow> json \<Rightarrow> unit + string"
  and join_elements :: "(rat \<Rightarrow> string) \<Rightarrow> json list \<Rightarrow> unit + string" where
  "ToString_json numberToString JNull = Inr ''null''"
| "ToString_json numberToString (JBool b) = Inr (if b then ''true'' else ''false'')"
| "ToString_json numberToString (JNumber r) = Inr (numberToString r)"
| "ToString_json numberToString (JString s) = Inr s"
| "ToString_json numberToString (JArray xs) = join_elements numberToString xs"
| "ToString_json numberToString (JObject ps) =
     (if ''toString'' \<in> set (map fst ps) then Inl () else Inr ''[object Object]'')"
| "join_elements numberToString [] = Inr []"
| "join_elements numberToString (x # xs) =
     (case (if x = JNull then Inr [] else ToString_json numberToString x) of
        Inl e \<Rightarrow> Inl e
      | Inr s \<Rightarrow>
          (if xs = [] then Inr s
           else (case join_elements numberToString xs of
                   Inl e \<Rightarrow> Inl e
                 | Inr t \<Rightarrow> Inr (s @ '','' @ t))))"

definition ToString :: "(rat \<Rightarrow> string) \<Rightarrow> json option \<Rightarrow> unit + string" where
  "ToString numberToString v =
     (case v of None \<Rightarrow> Inr ''undefined'' | Some j \<Rightarrow> ToString_json numberToString j)"

text \<open>
  \<^verbatim>\<open>s.includes(v)\<close> and \<^verbatim>\<open>s.replace(v, r)\<close> for a string \<open>s\<close> and arguments of any
  type: the arguments are converted to strings first, the search value before the
  replacement.
\<close>

definition includes_value :: "(rat \<Rightarrow> string) \<Rightarrow> string \<Rightarrow> json option \<Rightarrow> unit + bool" where
  "includes_value numberToString s v =
     (case ToString numberToString v of
        Inl e \<Rightarrow> Inl e
      | Inr searchString \<Rightarrow> Inr (str_includes s searchString))"

definition replace_value ::
  "(rat \<Rightarrow> string) \<Rightarrow> string \<Rightarrow> json option \<Rightarrow> json option \<Rightarrow> unit + string" where
  "replace_value numberToString s searchValue replaceValue =
     (case ToString numberToString searchValue of
        Inl e \<Rightarrow> Inl e
      | Inr searchString \<Rightarrow>
          (case ToString numberToString replaceValue of
             Inl e \<Rightarrow> Inl e
           | Inr template \<Rightarrow> Inr (str_replace s searchString template)))"

section \<open>types.ts: settings and the feature-to-model router\<close>

datatype Language = Chinese | English

datatype Pillar = Persona | Task | Context | Format | Other

datatype ApiProvider = GoogleGemini | DeepSeek | OpenAI | Anthropic | Custom

datatype FeatureType =
  Interview | Mentor | Feedback | Critique | Classify | Rewrite | ReverseEngineer

text \<open>
  \<open>CustomModel\<close>. The display fields \<open>name\<close> and \<open>description\<close> and the fields
  \<open>maxTokens\<close> and \<open>temperature\<close>, which no function below reads, are left out. An
  optional field that is absent is \<open>None\<close>.
\<close>

record CustomModel =
  model_id :: string
  provider :: ApiProvider
  modelName :: string
  baseUrl :: "string option"
  apiKey :: "string option"

record ApiConfig =
  activeProvider :: ApiProvider
  geminiApiKey :: string
  deepseekApiKey :: string
  defaultBaseUrl :: "string option"
  defaultApiKey :: "string option"
  models :: "FeatureType \<Rightarrow> string"
  customModels :: "CustomModel list"

datatype Theme = Light | Dark | System

text \<open>\<open>AppSettings\<close>; its fields \<open>language\<close> and \<open>theme\<close> carry the prefix \<open>settings_\<close>.\<close>

record AppSettings =
  api :: ApiConfig
  settings_language :: Language
  settings_theme :: Theme

definition PREDEFINED_MODELS :: "CustomModel list" where
  "PREDEFINED_MODELS =
     [\<lparr>model_id = ''gemini-pro'', provider = GoogleGemini,
        modelName = ''gemini-3-pro-preview'', baseUrl = None, apiKey = None\<rparr>,
      \<lparr>model_id = ''gemini-flash'', provider = GoogleGemini,
        modelName = ''gemini-3-flash-preview'', baseUrl = None, apiKey = None\<rparr>,
      \<lparr>model_id = ''deepseek-chat'', provider = DeepSeek,
        modelName = ''deepseek-chat'', baseUrl = Some ''https://api.deepseek.com'',
        apiKey = None\<rparr>,
      \<lparr>model_id = ''deepseek-reasoner'', provider = DeepSeek,
        modelName = ''deepseek-reasoner'', baseUrl = Some ''https://api.deepseek.com'',
        apiKey = None\<rparr>]"

definition DEFAULT_MODELS :: "FeatureType \<Rightarrow> string" where
  "DEFAULT_MODELS f =
     (case f of
        Interview \<Rightarrow> ''gemini-flash''
      | Mentor \<Rightarrow> ''gemini-pro''
      | Feedback \<Rightarrow> ''gemini-pro''
      | Critique \<Rightarrow> ''gemini-pro''
      | Classify \<Rightarrow> ''gemini-flash''
      | Rewrite \<Rightarrow> ''gemini-pro''
      | ReverseEngineer \<Rightarrow> ''gemini-flash'')"

definition DEFAULT_API_CONFIG :: ApiConfig where
  "DEFAULT_API_CONFIG =
     \<lparr>activeProvider = GoogleGemini, geminiApiKey = '''', deepseekApiKey = '''',
      defaultBaseUrl = Some '''', defaultApiKey = Some '''',
      models = DEFAULT_MODELS, customModels = []\<rparr>"

definition DEFAULT_APP_SETTINGS :: AppSettings where
  "DEFAULT_APP_SETTINGS = \<lparr>api = DEFAULT_API_CONFIG, settings_language = Chinese, settings_theme = Light\<rparr>"

definition getAllModels :: "CustomModel list \<Rightarrow> CustomModel list" where
  "getAllModels custom = PREDEFINED_MODELS @ custom"

definition getModelById :: "string \<Rightarrow> CustomModel list \<Rightarrow> CustomModel option" where
  "getModelById modelId custom = find (\<lambda>model. model_id model = modelId) (getAllModels custom)"

definition getApiKeyForModel :: "CustomModel \<Rightarrow> AppSettings \<Rightarrow> string" where
  "getApiKeyForModel model settings =
     (if truthy_opt (apiKey model) then the (apiKey model)
      else if truthy_opt (defaultApiKey (api settings)) then the (defaultApiKey (api settings))
      else (case provider model of
              GoogleGemini \<Rightarrow> geminiApiKey (api settings)
            | DeepSeek \<Rightarrow> deepseekApiKey (api settings)
            | _ \<Rightarrow> or_else (defaultApiKey (api settings)) ''''))"

definition getBaseUrlForModel :: "CustomModel \<Rightarrow> AppSettings \<Rightarrow> string option" where
  "getBaseUrlForModel model settings =
     (if truthy_opt (baseUrl model) then baseUrl model else defaultBaseUrl (api settings))"

section \<open>services/geminiService.ts: errors, module state and the outside world\<close>

text \<open>
  A thrown JavaScript object as \<open>callWithRetry\<close> inspects it: the fields \<open>status\<close>,
  \<open>code\<close>, \<open>message\<close> and the nested object \<open>error\<close> with its own \<open>code\<close> and
  \<open>status\<close>. A field holds a number, a string, or neither.
\<close>

datatype js_field = Absent | Num int | Str string

record nested_error =
  nested_code :: js_field
  nested_status :: js_field

record api_error =
  err_status :: js_field
  err_code :: js_field
  err_error :: "nested_error option"
  err_message :: js_field

text \<open>\<^verbatim>\<open>new Error(message)\<close>.\<close>

definition js_Error :: "string \<Rightarrow> api_error" where
  "js_Error message =
     \<lparr>err_status = Absent, err_code = Absent, err_error = None, err_message = Str message\<rparr>"

text \<open>The string value of each member of the enum \<open>FeatureType\<close>.\<close>

definition featureName :: "FeatureType \<Rightarrow> string" where
  "featureName f =
     (case f of
        Interview \<Rightarrow> ''interview''
      | Mentor \<Rightarrow> ''mentor''
      | Feedback \<Rightarrow> ''feedback''
      | Critique \<Rightarrow> ''critique''
      | Classify \<Rightarrow> ''classify''
      | Rewrite \<Rightarrow> ''rewrite''
      | ReverseEngineer \<Rightarrow> ''reverse-engineer'')"

text \<open>The error every operation throws when its feature has no model configuration.\<close>

definition modelConfigNotFound :: "FeatureType \<Rightarrow> api_error" where
  "modelConfigNotFound f =
     js_Error (''Model configuration not found for feature: '' @ featureName f)"

text \<open>
  The text sent to a model. The wording of the prompt templates is not modelled: a template
  is identified by its name and by the values it interpolates, in the order of the source.
\<close>

datatype contents =
    Plain string
  | InterviewInstruction string bool
  | ReverseEngineerContents string string
  | MentorContents string string "string list" string
  | FeedbackContents string string string "string list" bool
  | CritiqueContents string string string
  | ClassifyContents string string
  | PartialRewriteContents string string string bool
  | FullRewriteContents string string bool "string list"

text \<open>
  A request to \<^verbatim>\<open>ai.models.generateContent\<close>; \<open>gen_apiKey\<close> is the key the client
  \<open>ai\<close> was constructed with.
\<close>

record gen_request =
  gen_apiKey :: string
  gen_model :: string
  gen_temperature :: rat
  gen_json :: bool
  gen_contents :: contents

text \<open>The chat object that \<^verbatim>\<open>ai.chats.create\<close> returns.\<close>

record chat =
  chat_apiKey :: string
  chat_model :: string
  chat_instruction :: contents

text \<open>The \<^verbatim>\<open>fetch\<close> of \<open>callOpenAICompatible\<close> and what it reads of the response.\<close>

record http_request =
  req_url :: string
  req_bearer :: string
  req_model :: string
  req_messages :: "(string \<times> contents) list"
  req_temperature :: rat
  req_json :: bool

record http_response =
  resp_ok :: bool
  resp_status :: nat
  resp_text :: string
  resp_content :: "string option"

datatype event =
    Waited int
  | GenerateContent gen_request
  | SendMessage chat string
  | Fetch http_request

text \<open>
  The world an operation runs in: the state \<open>net\<close> of everything outside the program, the
  \<open>trace\<close> of the delays waited and the requests sent so far, and the module-level variables
  of the service. \<open>aiClient\<close> is the cached client, identified by the key it was constructed
  with.
\<close>

record 'n world =
  net :: 'n
  trace :: "event list"
  currentSettings :: AppSettings
  aiClient :: "string option"
  interviewChatSession :: "chat option"
  deepseekChatHistory :: "(string \<times> contents) list"

text \<open>
  The providers: each call takes the state of the outside and returns the outcome
  (\<open>Inl\<close> a thrown error) with the new state. For Gemini the outcome is \<open>response.text\<close>,
  which may be \<open>undefined\<close>. \<open>randomId\<close> is
  \<^verbatim>\<open>Math.random().toString(36).substr(2, 9)\<close>.
\<close>

record 'n provider_api =
  generateContent :: "gen_request \<Rightarrow> 'n \<Rightarrow> (api_error + string option) \<times> 'n"
  sendMessage :: "chat \<Rightarrow> string \<Rightarrow> 'n \<Rightarrow> (api_error + string option) \<times> 'n"
  fetch :: "http_request \<Rightarrow> 'n \<Rightarrow> (api_error + http_response) \<times> 'n"
  randomId :: "'n \<Rightarrow> string \<times> 'n"

definition do_generateContent ::
  "'n provider_api \<Rightarrow> gen_request \<Rightarrow> 'n world \<Rightarrow> (api_error + string option) \<times> 'n world" where
  "do_generateContent p request w =
     (case generateContent p request (net w) of
        (r, n') \<Rightarrow> (r, w\<lparr>net := n', trace := trace w @ [GenerateContent request]\<rparr>))"

definition do_sendMessage ::
  "'n provider_api \<Rightarrow> chat \<Rightarrow> string \<Rightarrow> 'n world \<Rightarrow> (api_error + string option) \<times> 'n world" where
  "do_sendMessage p session message w =
     (case sendMessage p session message (net w) of
        (r, n') \<Rightarrow> (r, w\<lparr>net := n', trace := trace w @ [SendMessage session message]\<rparr>))"

definition do_fetch ::
  "'n provider_api \<Rightarrow> http_request \<Rightarrow> 'n world \<Rightarrow> (api_error + http_response) \<times> 'n world" where
  "do_fetch p request w =
     (case fetch p request (net w) of
        (r, n') \<Rightarrow> (r, w\<lparr>net := n', trace := trace w @ [Fetch request]\<rparr>))"

text \<open>\<open>updateApiSettings\<close>, \<open>getModelForFeature\<close> and \<open>getModelConfigForFeature\<close>.\<close>

definition updateApiSettings :: "AppSettings \<Rightarrow> 'n world \<Rightarrow> 'n world" where
  "updateApiSettings settings w = w\<lparr>currentSettings := settings, aiClient := None\<rparr>"

definition getModelForFeature :: "FeatureType \<Rightarrow> 'n world \<Rightarrow> string" where
  "getModelForFeature feature w = models (api (currentSettings w)) feature"

definition getModelConfigForFeature :: "FeatureType \<Rightarrow> 'n world \<Rightarrow> CustomModel option" where
  "getModelConfigForFeature feature w =
     getModelById (models (api (currentSettings w)) feature)
       (customModels (api (currentSettings w)))"

text \<open>
  \<open>getAiClient(modelId?)\<close>: the client, identified by its key, or the thrown error. The
  argument is \<open>None\<close> where the source passes none.
\<close>

definition isGeminiModel :: "CustomModel \<Rightarrow> bool" where
  "isGeminiModel model \<longleftrightarrow> provider model = GoogleGemini \<or> prefix ''gemini-'' (modelName model)"

definition getAiClient :: "string option \<Rightarrow> 'n world \<Rightarrow> (api_error + string) \<times> 'n world" where
  "getAiClient modelId w =
     (if truthy_opt modelId then
        (case getModelById (the modelId) (customModels (api (currentSettings w))) of
           None \<Rightarrow>
             (Inl (js_Error (''Only Google Gemini models are currently supported. Model: ''
                              @ the modelId)), w)
         | Some model \<Rightarrow>
             if isGeminiModel model then
               (let key = getApiKeyForModel model (currentSettings w) in
                if \<not> truthy_str key then
                  (Inl (js_Error (''API key not configured for model: '' @ the modelId)), w)
                else if aiClient w = None \<or> geminiApiKey (api (currentSettings w)) \<noteq> key then
                  (Inr key, w\<lparr>aiClient := Some key\<rparr>)
                else (Inr (the (aiClient w)), w))
             else
               (Inl (js_Error (''Only Google Gemini models are currently supported. Model: ''
                                @ the modelId)), w))
      else
        (let key = geminiApiKey (api (currentSettings w)) in
         case aiClient w of
           None \<Rightarrow> (Inr key, w\<lparr>aiClient := Some key\<rparr>)
         | Some client \<Rightarrow> (Inr client, w)))"

section \<open>services/geminiService.ts: the retry policy\<close>

text \<open>The test \<open>isQuotaError\<close> of \<open>callWithRetry\<close>, disjunct by disjunct.\<close>

definition isQuotaError :: "api_error \<Rightarrow> bool" where
  "isQuotaError error \<longleftrightarrow>
     err_status error = Num 429 \<or>
     err_code error = Num 429 \<or>
     err_status error = Str ''RESOURCE_EXHAUSTED'' \<or>
     (case err_error error of
        None \<Rightarrow> False
      | Some n \<Rightarrow> nested_code n = Num 429 \<or> nested_status n = Str ''RESOURCE_EXHAUSTED'') \<or>
     (case err_message error of
        Str m \<Rightarrow> str_includes m ''429'' \<or> str_includes m ''quota''
      | _ \<Rightarrow> False)"

text \<open>\<open>wait(ms)\<close>: the delay is recorded in the trace.\<close>

definition wait :: "int \<Rightarrow> 'n world \<Rightarrow> 'n world" where
  "wait ms w = w\<lparr>trace := trace w @ [Waited ms]\<rparr>"

text \<open>
  \<open>callWithRetry(apiCall, retries, initialDelay)\<close>. The operation \<open>apiCall\<close> is effectful:
  it takes the world and returns its outcome (\<open>Inl\<close> a thrown error, \<open>Inr\<close> the value)
  with the world after the call.
\<close>

function callWithRetry ::
  "('n world \<Rightarrow> (api_error + 'a) \<times> 'n world) \<Rightarrow> int \<Rightarrow> int \<Rightarrow> 'n world
     \<Rightarrow> (api_error + 'a) \<times> 'n world"
where
  "callWithRetry apiCall retries initialDelay w =
     (case apiCall w of
        (Inr v, w') \<Rightarrow> (Inr v, w')
      | (Inl error, w') \<Rightarrow>
          if isQuotaError error \<and> retries > 0 then
            callWithRetry apiCall (retries - 1) (initialDelay * 2) (wait initialDelay w')
          else (Inl error, w'))"
  by pat_completeness auto
termination
  by (relation "measure (\<lambda>(apiCall, retries, initialDelay, w). nat retries)") auto

declare callWithRetry.simps [simp del]

text \<open>The default arguments \<open>retries = 3\<close> and \<open>initialDelay = 2000\<close>.\<close>

definition callWithRetry_default ::
  "('n world \<Rightarrow> (api_error + 'a) \<times> 'n world) \<Rightarrow> 'n world \<Rightarrow> (api_error + 'a) \<times> 'n world" where
  "callWithRetry_default apiCall w = callWithRetry apiCall 3 2000 w"

text \<open>
  \<open>callOpenAICompatible(modelConfig, messages, apiKey, temperature, jsonMode)\<close>, with
  \<open>key\<close> for the parameter \<open>apiKey\<close>. The end
  point is the base URL with \<open>/chat/completions\<close> appended after at most one trailing slash
  is removed, unless the base URL already names it.
\<close>

definition removeTrailingSlash :: "string \<Rightarrow> string" where
  "removeTrailingSlash s = (if s \<noteq> [] \<and> last s = CHR ''/'' then butlast s else s)"

definition endpointUrl :: "CustomModel \<Rightarrow> string" where
  "endpointUrl modelConfig =
     (let base = or_else (baseUrl modelConfig) ''https://api.deepseek.com'' in
      if \<not> str_includes base ''chat/completions''
      then removeTrailingSlash base @ ''/chat/completions''
      else base)"

definition callOpenAICompatible ::
  "'n provider_api \<Rightarrow> CustomModel \<Rightarrow> (string \<times> contents) list \<Rightarrow> string \<Rightarrow> rat \<Rightarrow> bool
     \<Rightarrow> 'n world \<Rightarrow> (api_error + string) \<times> 'n world" where
  "callOpenAICompatible p modelConfig messages key temperature jsonMode w =
     (case do_fetch p
             \<lparr>req_url = endpointUrl modelConfig, req_bearer = key,
              req_model = modelName modelConfig, req_messages = messages,
              req_temperature = temperature, req_json = jsonMode\<rparr> w of
        (Inl e, w') \<Rightarrow> (Inl e, w')
      | (Inr response, w') \<Rightarrow>
          if \<not> resp_ok response then
            (Inl (js_Error (''API Request Failed ('' @ digits (resp_status response) @ ''): ''
                             @ resp_text response)), w')
          else (Inr (or_else (resp_content response) ''''), w'))"

text \<open>The test that selects the OpenAI-compatible branch of every operation.\<close>

definition isOpenAICompatible :: "CustomModel \<Rightarrow> bool" where
  "isOpenAICompatible modelConfig \<longleftrightarrow>
     provider modelConfig = DeepSeek \<or> provider modelConfig = OpenAI
     \<or> provider modelConfig = Custom"

definition langName :: "Language \<Rightarrow> string" where
  "langName language = (if language = Chinese then ''Simplified Chinese'' else ''English'')"

section \<open>services/geminiService.ts: the interview session\<close>

definition startInterviewSession :: "Language \<Rightarrow> 'n world \<Rightarrow> (api_error + unit) \<times> 'n world" where
  "startInterviewSession language w =
     (case getModelConfigForFeature Interview w of
        None \<Rightarrow> (Inl (modelConfigNotFound Interview), w)
      | Some modelConfig \<Rightarrow>
          if isOpenAICompatible modelConfig then
            (Inr (),
             w\<lparr>deepseekChatHistory :=
                  [(''system'', InterviewInstruction (langName language) True)],
               interviewChatSession := None\<rparr>)
          else
            (case getAiClient None w of
               (Inl e, w') \<Rightarrow> (Inl e, w')
             | (Inr ai, w') \<Rightarrow>
                 (Inr (),
                  w'\<lparr>interviewChatSession :=
                       Some \<lparr>chat_apiKey = ai, chat_model = modelName modelConfig,
                             chat_instruction =
                               InterviewInstruction (langName language) False\<rparr>\<rparr>)))"

text \<open>\<open>InterviewResponse\<close>; a field that is \<open>undefined\<close> is \<open>None\<close>.\<close>

record InterviewResponse =
  question :: json
  options :: "json list"
  isFinalDraft :: bool
  generatedPrompt :: "json option"

text \<open>
  \<^verbatim>\<open>responseText.replace(/```json\n?|\n?```/g, '')\<close>: scanning from the left, at each
  position the first alternative that matches is removed, each optional line feed being
  taken when it is there.
\<close>

function stripCodeFences :: "string \<Rightarrow> string" where
  "stripCodeFences s =
     (if s = [] then []
      else if prefix ''```json'' s then
        (if prefix [CHR 0x0A] (drop 7 s) then stripCodeFences (drop 8 s)
         else stripCodeFences (drop 7 s))
      else if prefix (CHR 0x0A # ''```'') s then stripCodeFences (drop 4 s)
      else if prefix ''```'' s then stripCodeFences (drop 3 s)
      else hd s # stripCodeFences (tl s))"
  by pat_completeness auto
termination
  by (relation "measure length") auto

declare stripCodeFences.simps [simp del]

text \<open>The value the parse failure branch of \<open>sendInterviewMessage\<close> returns.\<close>

definition parseErrorResponse :: InterviewResponse where
  "parseErrorResponse =
     \<lparr>question = JString ''System Error: Could not parse AI response. Please try again.'',
      options = [], isFinalDraft = False, generatedPrompt = None\<rparr>"

text \<open>A property of a value that is known not to be \<open>null\<close>.\<close>

definition propOf :: "json \<Rightarrow> string \<Rightarrow> json option" where
  "propOf v key = (case getProp v key of Inl _ \<Rightarrow> None | Inr x \<Rightarrow> x)"

text \<open>
  The inner \<^verbatim>\<open>try\<close> of \<open>sendInterviewMessage\<close>: the text is cleaned and parsed, and the
  response is built; a \<open>SyntaxError\<close> of \<^verbatim>\<open>JSON.parse\<close> (\<open>None\<close>) and the \<open>TypeError\<close>
  of reading \<open>question\<close> from \<open>null\<close> both give the fixed response above. \<^verbatim>\<open>JSON.parse\<close> is
  a parameter.
\<close>

definition parseInterviewResponse :: "(string \<Rightarrow> json option) \<Rightarrow> string \<Rightarrow> InterviewResponse" where
  "parseInterviewResponse JSON_parse responseText =
     (let cleanJson = trim (stripCodeFences responseText) in
      case JSON_parse cleanJson of
        None \<Rightarrow> parseErrorResponse
      | Some json \<Rightarrow>
          (case getProp json ''question'' of
             Inl _ \<Rightarrow> parseErrorResponse
           | Inr q \<Rightarrow>
               \<lparr>question =
                  (if truthy q then the q
                   else if truthy (propOf json ''Question'') then the (propOf json ''Question'')
                   else JString ''...''),
                options =
                  (case propOf json ''options'' of Some (JArray xs) \<Rightarrow> take 3 xs | _ \<Rightarrow> []),
                isFinalDraft = truthy (propOf json ''isFinalDraft''),
                generatedPrompt = propOf json ''generatedPrompt''\<rparr>))"

text \<open>The \<open>TypeError\<close> of reading \<open>apiKey\<close> from an \<open>undefined\<close> model configuration.\<close>

definition undefinedModelTypeError :: api_error where
  "undefinedModelTypeError =
     js_Error ''Cannot read properties of undefined (reading 'apiKey')''"

text \<open>
  The dispatch inside the outer \<^verbatim>\<open>try\<close> of \<open>sendInterviewMessage\<close>: the response text,
  or the error that the outer \<^verbatim>\<open>catch\<close> logs and throws again.
\<close>

definition interviewResponseText ::
  "'n provider_api \<Rightarrow> string \<Rightarrow> 'n world \<Rightarrow> (api_error + string) \<times> 'n world" where
  "interviewResponseText p message w =
     (if deepseekChatHistory w \<noteq> [] then
        (case getModelConfigForFeature Interview w of
           None \<Rightarrow> (Inl undefinedModelTypeError, w)
         | Some modelConfig \<Rightarrow>
             (let key = getApiKeyForModel modelConfig (currentSettings w);
                  w1 = w\<lparr>deepseekChatHistory :=
                            deepseekChatHistory w @ [(''user'', Plain message)]\<rparr>
              in case callOpenAICompatible p modelConfig (deepseekChatHistory w1) key
                        (6 / 10) True w1 of
                   (Inl e, w2) \<Rightarrow> (Inl e, w2)
                 | (Inr responseText, w2) \<Rightarrow>
                     (Inr responseText,
                      w2\<lparr>deepseekChatHistory :=
                            deepseekChatHistory w2 @ [(''assistant'', Plain responseText)]\<rparr>)))
      else
        (case interviewChatSession w of
           Some session \<Rightarrow>
             (case callWithRetry_default (do_sendMessage p session message) w of
                (Inl e, w') \<Rightarrow> (Inl e, w')
              | (Inr text, w') \<Rightarrow> (Inr (or_else text ''{}''), w'))
         | None \<Rightarrow>
             (Inl (js_Error ''Session initialized but no valid handler found.''), w)))"

definition sendInterviewMessage ::
  "'n provider_api \<Rightarrow> (string \<Rightarrow> json option) \<Rightarrow> string \<Rightarrow> Language \<Rightarrow> 'n world
     \<Rightarrow> (api_error + InterviewResponse) \<times> 'n world" where
  "sendInterviewMessage p JSON_parse message language w =
     (case (if interviewChatSession w = None \<and> deepseekChatHistory w = []
            then startInterviewSession language w else (Inr (), w)) of
        (Inl e, w1) \<Rightarrow> (Inl e, w1)
      | (Inr _, w1) \<Rightarrow>
          (case interviewResponseText p message w1 of
             (Inl e, w2) \<Rightarrow> (Inl e, w2)
           | (Inr responseText, w2) \<Rightarrow>
               (Inr (parseInterviewResponse JSON_parse responseText), w2)))"

section \<open>services/geminiService.ts: the one-shot operations\<close>

text \<open>
  The call every Gemini branch makes:
  \<^verbatim>\<open>callWithRetry(() => ai.models.generateContent({model, config, contents}))\<close>.
\<close>

definition generateWithRetry ::
  "'n provider_api \<Rightarrow> string \<Rightarrow> string \<Rightarrow> rat \<Rightarrow> bool \<Rightarrow> contents \<Rightarrow> 'n world
     \<Rightarrow> (api_error + string option) \<times> 'n world" where
  "generateWithRetry p ai model temperature json contents w =
     callWithRetry_default
       (do_generateContent p
          \<lparr>gen_apiKey = ai, gen_model = model, gen_temperature = temperature,
           gen_json = json, gen_contents = contents\<rparr>) w"

text \<open>\<^verbatim>\<open>text ? text.trim() : fallback\<close>, for a string and for \<open>response.text\<close>.\<close>

definition trimmed_or :: "string \<Rightarrow> string \<Rightarrow> string" where
  "trimmed_or t fallback = (if truthy_str t then trim t else fallback)"

definition text_trimmed_or :: "string option \<Rightarrow> string \<Rightarrow> string" where
  "text_trimmed_or t fallback = (if truthy_opt t then trim (the t) else fallback)"

definition reverseEngineerContext ::
  "'n provider_api \<Rightarrow> string \<Rightarrow> Language \<Rightarrow> 'n world \<Rightarrow> (api_error + string) \<times> 'n world" where
  "reverseEngineerContext p prompt language w =
     (case getModelConfigForFeature ReverseEngineer w of
        None \<Rightarrow> (Inl (modelConfigNotFound ReverseEngineer), w)
      | Some modelConfig \<Rightarrow>
          (let contents = ReverseEngineerContents prompt (langName language) in
           if isOpenAICompatible modelConfig then
             (case callOpenAICompatible p modelConfig [(''user'', contents)]
                     (getApiKeyForModel modelConfig (currentSettings w)) (3 / 10) False w of
                (Inr result, w') \<Rightarrow> (Inr result, w')
              | (Inl e, w') \<Rightarrow> (Inr ''Context inferred from original prompt.'', w'))
           else
             (case getAiClient (Some (getModelForFeature ReverseEngineer w)) w of
                (Inl e, w') \<Rightarrow> (Inl e, w')
              | (Inr ai, w') \<Rightarrow>
                  (case generateWithRetry p ai (modelName modelConfig) (3 / 10) False contents w' of
                     (Inr t, w'') \<Rightarrow>
                       (Inr (text_trimmed_or t ''Context inferred from original prompt.''), w'')
                   | (Inl e, w'') \<Rightarrow>
                       (Inr ''User provided prompt directly. Focus on clarity and structure.'',
                        w'')))))"

text \<open>\<open>getMentorFeedback\<close>; the result \<open>null\<close> is \<open>None\<close>.\<close>

definition getMentorFeedback ::
  "'n provider_api \<Rightarrow> string \<Rightarrow> string \<Rightarrow> Language \<Rightarrow> string list \<Rightarrow> 'n world
     \<Rightarrow> (api_error + string option) \<times> 'n world" where
  "getMentorFeedback p currentPrompt context language ignoredFeedback w =
     (case getModelConfigForFeature Mentor w of
        None \<Rightarrow> (Inl (modelConfigNotFound Mentor), w)
      | Some modelConfig \<Rightarrow>
          (let contents = MentorContents context currentPrompt ignoredFeedback (langName language) in
           if isOpenAICompatible modelConfig then
             (case callOpenAICompatible p modelConfig [(''user'', contents)]
                     (getApiKeyForModel modelConfig (currentSettings w)) (5 / 10) False w of
                (Inr result, w') \<Rightarrow>
                  (Inr (if truthy_str result then Some (trim result) else None), w')
              | (Inl e, w') \<Rightarrow> (Inr None, w'))
           else
             (case getAiClient (Some (getModelForFeature Mentor w)) w of
                (Inl e, w') \<Rightarrow> (Inl e, w')
              | (Inr ai, w') \<Rightarrow>
                  (case generateWithRetry p ai (modelName modelConfig) (5 / 10) False contents w' of
                     (Inr t, w'') \<Rightarrow>
                       (Inr (if truthy_opt t then Some (trim (the t)) else None), w'')
                   | (Inl e, w'') \<Rightarrow> (Inr None, w'')))))"

definition applySpecificFeedback ::
  "'n provider_api \<Rightarrow> string \<Rightarrow> string \<Rightarrow> string \<Rightarrow> string list \<Rightarrow> Language \<Rightarrow> 'n world
     \<Rightarrow> (api_error + string) \<times> 'n world" where
  "applySpecificFeedback p currentPrompt context feedback lockedSegments language w =
     (case getModelConfigForFeature Feedback w of
        None \<Rightarrow> (Inl (modelConfigNotFound Feedback), w)
      | Some modelConfig \<Rightarrow>
          (let contents =
                 FeedbackContents currentPrompt context feedback lockedSegments
                   (language = Chinese) in
           if isOpenAICompatible modelConfig then
             (case callOpenAICompatible p modelConfig [(''user'', contents)]
                     (getApiKeyForModel modelConfig (currentSettings w)) (2 / 10) False w of
                (Inr result, w') \<Rightarrow> (Inr (trimmed_or result currentPrompt), w')
              | (Inl e, w') \<Rightarrow> (Inr currentPrompt, w'))
           else
             (case getAiClient (Some (getModelForFeature Feedback w)) w of
                (Inl e, w') \<Rightarrow> (Inl e, w')
              | (Inr ai, w') \<Rightarrow>
                  (case generateWithRetry p ai (modelName modelConfig) (2 / 10) False contents w' of
                     (Inr t, w'') \<Rightarrow> (Inr (text_trimmed_or t currentPrompt), w'')
                   | (Inl e, w'') \<Rightarrow> (Inr currentPrompt, w'')))))"

text \<open>
  A suggestion as the editor holds it. The service builds it as \<^verbatim>\<open>{...item, id}\<close> from
  an item of the parsed array, and nothing checks the item: each property the sources read
  is whatever the item has under that name, any JSON value or \<open>undefined\<close> (\<open>None\<close>), and
  an item that is not an object has none of them. Only \<open>id\<close> is known to be a string. The
  fields \<open>id\<close> and \<open>type\<close> carry the prefix \<open>sugg_\<close>.
\<close>

record Suggestion =
  sugg_id :: string
  originalText :: "json option"
  suggestedText :: "json option"
  reason :: "json option"
  sugg_type :: "json option"

text \<open>
  The properties that \<^verbatim>\<open>{...item}\<close> copies are the item's own: those of an object; a
  string and an array have their indices only, and \<open>null\<close>, a boolean and a number have
  none.
\<close>

definition ownProperty :: "json \<Rightarrow> string \<Rightarrow> json option" where
  "ownProperty item key = (case item of JObject ps \<Rightarrow> map_of ps key | _ \<Rightarrow> None)"

text \<open>\<^verbatim>\<open>{...item, id: newId}\<close>.\<close>

definition spreadWithId :: "json \<Rightarrow> string \<Rightarrow> Suggestion" where
  "spreadWithId item newId =
     \<lparr>sugg_id = newId, originalText = ownProperty item ''originalText'',
      suggestedText = ownProperty item ''suggestedText'', reason = ownProperty item ''reason'',
      sugg_type = ownProperty item ''type''\<rparr>"

text \<open>\<^verbatim>\<open>json.map(item => ({...item, id: Math.random()...}))\<close>.\<close>

fun assignIds :: "'n provider_api \<Rightarrow> json list \<Rightarrow> 'n world \<Rightarrow> Suggestion list \<times> 'n world" where
  "assignIds p [] w = ([], w)"
| "assignIds p (item # items) w =
     (case randomId p (net w) of
        (newId, n') \<Rightarrow>
          (case assignIds p items (w\<lparr>net := n'\<rparr>) of
             (rest, w') \<Rightarrow> (spreadWithId item newId # rest, w')))"

text \<open>
  The text of the model is parsed, and the array is mapped; a \<open>SyntaxError\<close> of
  \<^verbatim>\<open>JSON.parse\<close> (\<open>None\<close>) and a value that is not an array give the empty list.
  \<^verbatim>\<open>JSON.parse\<close> is a parameter.
\<close>

definition critiqueOfText ::
  "'n provider_api \<Rightarrow> (string \<Rightarrow> json option) \<Rightarrow> string \<Rightarrow> 'n world
     \<Rightarrow> Suggestion list \<times> 'n world" where
  "critiqueOfText p JSON_parse t w =
     (case JSON_parse t of
        Some (JArray items) \<Rightarrow> assignIds p items w
      | _ \<Rightarrow> ([], w))"

definition getDetailedCritique ::
  "'n provider_api \<Rightarrow> (string \<Rightarrow> json option) \<Rightarrow> string \<Rightarrow> string \<Rightarrow> Language \<Rightarrow> 'n world
     \<Rightarrow> (api_error + Suggestion list) \<times> 'n world" where
  "getDetailedCritique p JSON_parse currentPrompt context language w =
     (case getModelConfigForFeature Critique w of
        None \<Rightarrow> (Inl (modelConfigNotFound Critique), w)
      | Some modelConfig \<Rightarrow>
          (let contents = CritiqueContents context currentPrompt (langName language) in
           if isOpenAICompatible modelConfig then
             (case callOpenAICompatible p modelConfig [(''user'', contents)]
                     (getApiKeyForModel modelConfig (currentSettings w)) (1 / 10) True w of
                (Inr result, w') \<Rightarrow>
                  (case critiqueOfText p JSON_parse result w' of (s, w'') \<Rightarrow> (Inr s, w''))
              | (Inl e, w') \<Rightarrow> (Inr [], w'))
           else
             (case getAiClient (Some (getModelForFeature Critique w)) w of
                (Inl e, w') \<Rightarrow> (Inl e, w')
              | (Inr ai, w') \<Rightarrow>
                  (case generateWithRetry p ai (modelName modelConfig) (1 / 10) True contents w' of
                     (Inr t, w'') \<Rightarrow>
                       (case critiqueOfText p JSON_parse (or_else t ''[]'') w'' of
                          (s, w''') \<Rightarrow> (Inr s, w'''))
                   | (Inl e, w'') \<Rightarrow> (Inr [], w'')))))"

text \<open>
  The chain of tests that both branches of \<open>classifyPromptSegment\<close> apply to the trimmed,
  lower-cased text of the model.
\<close>

definition pillarOfText :: "string \<Rightarrow> Pillar" where
  "pillarOfText normalized =
     (if str_includes normalized ''persona'' then Persona
      else if str_includes normalized ''task'' then Task
      else if str_includes normalized ''context'' then Context
      else if str_includes normalized ''format'' then Format
      else Other)"

definition classifyPromptSegment ::
  "'n provider_api \<Rightarrow> string \<Rightarrow> string \<Rightarrow> 'n world \<Rightarrow> (api_error + Pillar) \<times> 'n world" where
  "classifyPromptSegment p segment fullPrompt w =
     (case getModelConfigForFeature Classify w of
        None \<Rightarrow> (Inl (modelConfigNotFound Classify), w)
      | Some modelConfig \<Rightarrow>
          (let contents = ClassifyContents fullPrompt segment in
           if isOpenAICompatible modelConfig then
             (case callOpenAICompatible p modelConfig [(''user'', contents)]
                     (getApiKeyForModel modelConfig (currentSettings w)) (1 / 10) False w of
                (Inr t, w') \<Rightarrow>
                  (Inr (pillarOfText (if truthy_str t then toLowerCase (trim t) else '''')), w')
              | (Inl e, w') \<Rightarrow> (Inr Other, w'))
           else
             (case getAiClient (Some (getModelForFeature Classify w)) w of
                (Inl e, w') \<Rightarrow> (Inl e, w')
              | (Inr ai, w') \<Rightarrow>
                  (case generateWithRetry p ai (modelName modelConfig) (1 / 10) False contents w' of
                     (Inr t, w'') \<Rightarrow>
                       (Inr (pillarOfText
                               (if truthy_opt t then toLowerCase (trim (the t)) else '''')), w'')
                   | (Inl e, w'') \<Rightarrow> (Inr Other, w'')))))"

text \<open>
  \<open>reconstructPrompt\<close>. The inner function \<open>generate(modelId)\<close> of the full rewrite looks
  the model up again and sends the request with the client \<open>ai\<close> of the rewrite model;
  \<open>generateRequest\<close> is the object it passes to \<^verbatim>\<open>ai.models.generateContent\<close>.
\<close>

definition generateRequest :: "string \<Rightarrow> contents \<Rightarrow> string \<Rightarrow> 'n world \<Rightarrow> gen_request" where
  "generateRequest ai contents modelId w =
     \<lparr>gen_apiKey = ai,
      gen_model =
        (case getModelById modelId (customModels (api (currentSettings w))) of
           None \<Rightarrow> modelId
         | Some modelConfig \<Rightarrow> or_else (Some (modelName modelConfig)) modelId),
      gen_temperature = 7 / 10, gen_json = False, gen_contents = contents\<rparr>"

definition generate ::
  "'n provider_api \<Rightarrow> string \<Rightarrow> contents \<Rightarrow> string \<Rightarrow> 'n world
     \<Rightarrow> (api_error + string option) \<times> 'n world" where
  "generate p ai contents modelId w =
     do_generateContent p (generateRequest ai contents modelId w) w"

text \<open>The model the fallback of the full rewrite asks for.\<close>

definition flashModelId :: "'n world \<Rightarrow> string" where
  "flashModelId w =
     (case find (\<lambda>m. str_includes (modelName m) ''flash'')
             (customModels (api (currentSettings w))) of
        None \<Rightarrow> ''gemini-flash''
      | Some flashModel \<Rightarrow> or_else (Some (model_id flashModel)) ''gemini-flash'')"

definition reconstructPrompt ::
  "'n provider_api \<Rightarrow> string \<Rightarrow> string \<Rightarrow> string list \<Rightarrow> Language \<Rightarrow> string option \<Rightarrow> 'n world
     \<Rightarrow> (api_error + string) \<times> 'n world" where
  "reconstructPrompt p currentPrompt context lockedSegments language focusSegment w =
     (case getModelConfigForFeature Rewrite w of
        None \<Rightarrow> (Inl (modelConfigNotFound Rewrite), w)
      | Some modelConfig \<Rightarrow>
          (let isZh = (language = Chinese) in
           if truthy_opt focusSegment then
             (let focus = the focusSegment;
                  contents = PartialRewriteContents context currentPrompt focus isZh in
              if isOpenAICompatible modelConfig then
                (case callOpenAICompatible p modelConfig [(''user'', contents)]
                        (getApiKeyForModel modelConfig (currentSettings w)) (3 / 10) False w of
                   (Inr result, w') \<Rightarrow> (Inr (trimmed_or result focus), w')
                 | (Inl e, w') \<Rightarrow> (Inr focus, w'))
              else
                (case getAiClient (Some (getModelForFeature Rewrite w)) w of
                   (Inl e, w') \<Rightarrow> (Inl e, w')
                 | (Inr ai, w') \<Rightarrow>
                     (case generateWithRetry p ai (modelName modelConfig) (3 / 10) False
                             contents w' of
                        (Inr t, w'') \<Rightarrow> (Inr (text_trimmed_or t focus), w'')
                      | (Inl e, w'') \<Rightarrow> (Inr focus, w''))))
           else
             (let contents = FullRewriteContents context currentPrompt isZh lockedSegments in
              if isOpenAICompatible modelConfig then
                (case callOpenAICompatible p modelConfig [(''user'', contents)]
                        (getApiKeyForModel modelConfig (currentSettings w)) (7 / 10) False w of
                   (Inr result, w') \<Rightarrow> (Inr (trimmed_or result currentPrompt), w')
                 | (Inl e, w') \<Rightarrow> (Inr currentPrompt, w'))
              else
                (case getAiClient (Some (getModelForFeature Rewrite w)) w of
                   (Inl e, w') \<Rightarrow> (Inl e, w')
                 | (Inr ai, w') \<Rightarrow>
                     (case callWithRetry_default
                             (\<lambda>v. generate p ai contents (getModelForFeature Rewrite v) v) w' of
                        (Inr t, w'') \<Rightarrow> (Inr (text_trimmed_or t currentPrompt), w'')
                      | (Inl e, w'') \<Rightarrow>
                          (case callWithRetry_default
                                  (generate p ai contents (flashModelId w'')) w'' of
                             (Inr t, w''') \<Rightarrow> (Inr (text_trimmed_or t currentPrompt), w''')
                           | (Inl e2, w''') \<Rightarrow> (Inr currentPrompt, w''')))))))"

section \<open>hooks/useEditorState.ts: the editor state and its actions\<close>

datatype ProcessingType = Scan | Reconstruct | ApplyFeedback

text \<open>
  \<open>LockedSegment\<close>, with the prefix \<open>lock_\<close> on \<open>id\<close> and \<open>text\<close>; the pillar
  \<^verbatim>\<open>'pending'\<close> is \<open>None\<close>.
\<close>

record LockedSegment =
  lock_id :: string
  lock_text :: string
  pillar :: "Pillar option"

text \<open>
  The state variables of the hook, one field for each \<^verbatim>\<open>useState\<close>; \<open>null\<close> is \<open>None\<close>.
  An event handler, or the continuation of an \<^verbatim>\<open>await\<close>, runs on the state of the last
  render and its updates are rendered before the next one runs, so each is a function from
  state to state.
\<close>

record EditorState =
  prompt :: string
  suggestions :: "Suggestion list"
  activeSuggestionId :: "string option"
  feedback :: string
  isTyping :: bool
  isProcessing :: bool
  processingType :: "ProcessingType option"
  processingSelection :: "(int \<times> int) option"
  ignoredFeedbackHistory :: "string list"
  lastPromptBeforeApply :: "string option"
  showUndo :: bool
  lockedSegments :: "LockedSegment list"
  lastFeedbackPrompt :: string

text \<open>
  The state of the first render. The initial feedback is the localized message that the
  structure is being analysed; it is the parameter \<open>analyzing\<close>.
\<close>

definition useEditorState_init :: "string \<Rightarrow> string \<Rightarrow> EditorState" where
  "useEditorState_init initialPrompt analyzing =
     \<lparr>prompt = initialPrompt, suggestions = [], activeSuggestionId = None,
      feedback = analyzing, isTyping = False, isProcessing = False, processingType = None,
      processingSelection = None, ignoredFeedbackHistory = [], lastPromptBeforeApply = None,
      showUndo = False, lockedSegments = [], lastFeedbackPrompt = ''''\<rparr>"

text \<open>
  \<open>promptRef.current\<close>: the effect \<^verbatim>\<open>useEffect(() => { promptRef.current = prompt; }, [prompt])\<close>
  sets it to the prompt of every render.
\<close>

definition promptRef_current :: "EditorState \<Rightarrow> string" where
  "promptRef_current st = prompt st"

definition updatePrompt :: "string \<Rightarrow> EditorState \<Rightarrow> EditorState" where
  "updatePrompt newPrompt st =
     (if showUndo st
      then st\<lparr>prompt := newPrompt, showUndo := False, lastPromptBeforeApply := None\<rparr>
      else st\<lparr>prompt := newPrompt\<rparr>)"

text \<open>
  An asynchronous handler is split at its \<^verbatim>\<open>await\<close>: the part before it returns the new
  state and the request it sends, with the values its closure holds (\<open>None\<close> when the
  handler returns at once); the part after it takes the outcome of the request, \<open>Inl\<close> a
  rejection.
\<close>

datatype request =
    CritiqueRequest string
  | FeedbackRequest string string "string list"
  | MentorRequest string "string list"
  | GlobalRewriteRequest string "string list"
  | PartialRewriteRequest string "string list" int int string

definition handleDeepScan_start :: "EditorState \<Rightarrow> EditorState \<times> request option" where
  "handleDeepScan_start st =
     (if isProcessing st then (st, None)
      else (st\<lparr>isProcessing := True, processingType := Some Scan, suggestions := [],
                showUndo := False\<rparr>,
            Some (CritiqueRequest (prompt st))))"

text \<open>
  \<^verbatim>\<open>s.filter(sugg => promptRef.current.includes(sugg.originalText))\<close>: \<open>includes\<close>
  converts its argument to a string, and a conversion that throws ends the filter.
\<close>

fun validSuggestions ::
  "(rat \<Rightarrow> string) \<Rightarrow> string \<Rightarrow> Suggestion list \<Rightarrow> unit + Suggestion list" where
  "validSuggestions numberToString current [] = Inr []"
| "validSuggestions numberToString current (sugg # rest) =
     (case includes_value numberToString current (originalText sugg) of
        Inl e \<Rightarrow> Inl e
      | Inr keep \<Rightarrow>
          (case validSuggestions numberToString current rest of
             Inl e \<Rightarrow> Inl e
           | Inr valid \<Rightarrow> Inr (if keep then sugg # valid else valid)))"

text \<open>
  The continuation of \<open>handleDeepScan\<close>: a rejected request and an error thrown by the
  filter are both caught and logged, and the \<^verbatim>\<open>finally\<close> block clears the flags.
\<close>

definition handleDeepScan_finish ::
  "(rat \<Rightarrow> string) \<Rightarrow> api_error + Suggestion list \<Rightarrow> EditorState \<Rightarrow> EditorState" where
  "handleDeepScan_finish numberToString outcome st =
     (case outcome of
        Inr s \<Rightarrow>
          (case validSuggestions numberToString (promptRef_current st) s of
             Inr valid \<Rightarrow>
               st\<lparr>suggestions := valid, isProcessing := False, processingType := None\<rparr>
           | Inl e \<Rightarrow> st\<lparr>isProcessing := False, processingType := None\<rparr>)
      | Inl e \<Rightarrow> st\<lparr>isProcessing := False, processingType := None\<rparr>)"

text \<open>
  \<open>applySuggestion\<close>: \<open>replace\<close> converts both arguments to strings; when a conversion
  throws, the handler ends with the \<open>TypeError\<close> (\<open>Inl ()\<close>) and no state is set.
\<close>

definition applySuggestion ::
  "(rat \<Rightarrow> string) \<Rightarrow> Suggestion \<Rightarrow> EditorState \<Rightarrow> unit + EditorState" where
  "applySuggestion numberToString suggestion st =
     (case replace_value numberToString (prompt st) (originalText suggestion)
             (suggestedText suggestion) of
        Inl e \<Rightarrow> Inl e
      | Inr newPrompt \<Rightarrow>
          Inr (st\<lparr>prompt := newPrompt,
                  suggestions := filter (\<lambda>s. sugg_id s \<noteq> sugg_id suggestion) (suggestions st),
                  activeSuggestionId := None\<rparr>))"

definition dismissSuggestion :: "string \<Rightarrow> EditorState \<Rightarrow> EditorState" where
  "dismissSuggestion i st =
     st\<lparr>suggestions := filter (\<lambda>s. sugg_id s \<noteq> i) (suggestions st),
        activeSuggestionId := None\<rparr>"

definition handleApplyFeedback_start :: "EditorState \<Rightarrow> EditorState \<times> request option" where
  "handleApplyFeedback_start st =
     (if \<not> truthy_str (feedback st) \<or> isProcessing st then (st, None)
      else (st\<lparr>lastPromptBeforeApply := Some (prompt st), isProcessing := True,
                processingType := Some ApplyFeedback\<rparr>,
            Some (FeedbackRequest (prompt st) (feedback st)
                    (map lock_text (lockedSegments st)))))"

definition handleApplyFeedback_finish :: "api_error + string \<Rightarrow> EditorState \<Rightarrow> EditorState" where
  "handleApplyFeedback_finish outcome st =
     (case outcome of
        Inr newPrompt \<Rightarrow>
          st\<lparr>prompt := newPrompt, suggestions := [], showUndo := True,
             isProcessing := False, processingType := None\<rparr>
      | Inl e \<Rightarrow> st\<lparr>isProcessing := False, processingType := None\<rparr>)"

definition handleUndo :: "EditorState \<Rightarrow> EditorState" where
  "handleUndo st =
     (if truthy_opt (lastPromptBeforeApply st)
      then st\<lparr>prompt := the (lastPromptBeforeApply st), showUndo := False,
              lastPromptBeforeApply := None\<rparr>
      else st)"

definition handleDismissFeedback_start :: "EditorState \<Rightarrow> EditorState \<times> request option" where
  "handleDismissFeedback_start st =
     (if \<not> truthy_str (feedback st) then (st, None)
      else
        (let newHistory = ignoredFeedbackHistory st @ [feedback st] in
         (st\<lparr>ignoredFeedbackHistory := newHistory, showUndo := False, isTyping := True\<rparr>,
          Some (MentorRequest (prompt st) newHistory))))"

text \<open>
  The parameter \<open>noFurther\<close> is the localized message that there are no further
  suggestions.
\<close>

definition handleDismissFeedback_finish ::
  "string \<Rightarrow> api_error + string option \<Rightarrow> EditorState \<Rightarrow> EditorState" where
  "handleDismissFeedback_finish noFurther outcome st =
     (case outcome of
        Inr newFeedback \<Rightarrow>
          st\<lparr>feedback := (if truthy_opt newFeedback then the newFeedback else noFurther),
             isTyping := False\<rparr>
      | Inl e \<Rightarrow> st\<lparr>isTyping := False\<rparr>)"

definition handleGlobalReconstruct_start :: "EditorState \<Rightarrow> EditorState \<times> request option" where
  "handleGlobalReconstruct_start st =
     (st\<lparr>isProcessing := True, processingType := Some Reconstruct,
         processingSelection := None, showUndo := False\<rparr>,
      Some (GlobalRewriteRequest (prompt st) (map lock_text (lockedSegments st))))"

definition handleGlobalReconstruct_finish ::
  "api_error + string \<Rightarrow> EditorState \<Rightarrow> EditorState" where
  "handleGlobalReconstruct_finish outcome st =
     (case outcome of
        Inr result \<Rightarrow>
          st\<lparr>prompt := result, suggestions := [], isProcessing := False,
             processingType := None\<rparr>
      | Inl e \<Rightarrow> st\<lparr>isProcessing := False, processingType := None\<rparr>)"

text \<open>
  \<open>handlePartialReconstruct(selection)\<close> with \<open>selection = {text, start, end}\<close>; the
  continuation splices the rewritten segment into the prompt its closure holds.
\<close>

definition handlePartialReconstruct_start ::
  "string \<Rightarrow> int \<Rightarrow> int \<Rightarrow> EditorState \<Rightarrow> EditorState \<times> request option" where
  "handlePartialReconstruct_start selText selStart selEnd st =
     (st\<lparr>processingSelection := Some (selStart, selEnd), isProcessing := True,
         processingType := Some Reconstruct, showUndo := False\<rparr>,
      Some (PartialRewriteRequest (prompt st) (map lock_text (lockedSegments st))
              selStart selEnd selText))"

definition handlePartialReconstruct_finish ::
  "string \<Rightarrow> int \<Rightarrow> int \<Rightarrow> api_error + string \<Rightarrow> EditorState \<Rightarrow> EditorState" where
  "handlePartialReconstruct_finish closurePrompt selStart selEnd outcome st =
     (case outcome of
        Inr rewrittenSegment \<Rightarrow>
          st\<lparr>prompt := substring_to closurePrompt selStart @ rewrittenSegment
                          @ substring_from closurePrompt selEnd,
             isProcessing := False, processingType := None, processingSelection := None\<rparr>
      | Inl e \<Rightarrow>
          st\<lparr>isProcessing := False, processingType := None, processingSelection := None\<rparr>)"

text \<open>\<open>addLock\<close>, with the fresh id as a parameter, and \<open>removeLock\<close>.\<close>

definition addLock :: "string \<Rightarrow> string \<Rightarrow> EditorState \<Rightarrow> EditorState" where
  "addLock newId t st =
     (if \<not> list_ex (\<lambda>s. lock_text s = t) (lockedSegments st)
      then st\<lparr>lockedSegments :=
                lockedSegments st @ [\<lparr>lock_id = newId, lock_text = t, pillar = None\<rparr>]\<rparr>
      else st)"

definition removeLock :: "string \<Rightarrow> EditorState \<Rightarrow> EditorState" where
  "removeLock i st = st\<lparr>lockedSegments := filter (\<lambda>s. lock_id s \<noteq> i) (lockedSegments st)\<rparr>"

text \<open>
  The lock classification effect: the first pending segment is classified, and the outcome
  of \<open>classifyPromptSegment\<close> is written back by id, a rejection as \<open>Other\<close>.
\<close>

definition pendingLock :: "EditorState \<Rightarrow> LockedSegment option" where
  "pendingLock st = find (\<lambda>s. pillar s = None) (lockedSegments st)"


text \<open>
  A handler run to its end with no other event in between: the request goes to the service
  and its outcome to the continuation.
\<close>

definition handleDeepScan ::
  "(rat \<Rightarrow> string) \<Rightarrow> 'n provider_api \<Rightarrow> (string \<Rightarrow> json option) \<Rightarrow> string \<Rightarrow> Language
     \<Rightarrow> EditorState \<times> 'n world \<Rightarrow> EditorState \<times> 'n world" where
  "handleDeepScan numberToString p JSON_parse context language sw =
     (case sw of (st, w) \<Rightarrow>
        (case handleDeepScan_start st of
           (st1, Some (CritiqueRequest closurePrompt)) \<Rightarrow>
             (case getDetailedCritique p JSON_parse closurePrompt context language w of
                (outcome, w') \<Rightarrow> (handleDeepScan_finish numberToString outcome st1, w'))
         | (st1, _) \<Rightarrow> (st1, w)))"

definition handleApplyFeedback ::
  "'n provider_api \<Rightarrow> string \<Rightarrow> Language \<Rightarrow> EditorState \<times> 'n world \<Rightarrow> EditorState \<times> 'n world" where
  "handleApplyFeedback p context language sw =
     (case sw of (st, w) \<Rightarrow>
        (case handleApplyFeedback_start st of
           (st1, Some (FeedbackRequest closurePrompt closureFeedback locks)) \<Rightarrow>
             (case applySpecificFeedback p closurePrompt context closureFeedback locks language w of
                (outcome, w') \<Rightarrow> (handleApplyFeedback_finish outcome st1, w'))
         | (st1, _) \<Rightarrow> (st1, w)))"

definition handleGlobalReconstruct ::
  "'n provider_api \<Rightarrow> string \<Rightarrow> Language \<Rightarrow> EditorState \<times> 'n world \<Rightarrow> EditorState \<times> 'n world" where
  "handleGlobalReconstruct p context language sw =
     (case sw of (st, w) \<Rightarrow>
        (case handleGlobalReconstruct_start st of
           (st1, Some (GlobalRewriteRequest closurePrompt locks)) \<Rightarrow>
             (case reconstructPrompt p closurePrompt context locks language None w of
                (outcome, w') \<Rightarrow> (handleGlobalReconstruct_finish outcome st1, w'))
         | (st1, _) \<Rightarrow> (st1, w)))"

definition handlePartialReconstruct ::
  "'n provider_api \<Rightarrow> string \<Rightarrow> Language \<Rightarrow> string \<Rightarrow> int \<Rightarrow> int
     \<Rightarrow> EditorState \<times> 'n world \<Rightarrow> EditorState \<times> 'n world" where
  "handlePartialReconstruct p context language selText selStart selEnd sw =
     (case sw of (st, w) \<Rightarrow>
        (case handlePartialReconstruct_start selText selStart selEnd st of
           (st1, Some (PartialRewriteRequest closurePrompt locks s e t)) \<Rightarrow>
             (case reconstructPrompt p closurePrompt context locks language (Some t) w of
                (outcome, w') \<Rightarrow> (handlePartialReconstruct_finish closurePrompt s e outcome st1, w'))
         | (st1, _) \<Rightarrow> (st1, w)))"

section \<open>Notions the statements below use\<close>




text \<open>The delays in a trace, and the models asked by the Gemini requests in a trace.\<close>

fun waits_of :: "event list \<Rightarrow> int list" where
  "waits_of [] = []"
| "waits_of (Waited ms # es) = ms # waits_of es"
| "waits_of (e # es) = waits_of es"


subsection \<open>Concrete worlds and operations for the examples\<close>

definition world0 :: "nat world" where
  "world0 =
     \<lparr>net = 0, trace = [], currentSettings = DEFAULT_APP_SETTINGS, aiClient = None,
      interviewChatSession = None, deepseekChatHistory = []\<rparr>"





text \<open>An editor on a small prompt, with a mentor tip to apply, and a scan in flight on it.\<close>

definition exampleState :: EditorState where
  "exampleState =
     (useEditorState_init ''You are a helpful assistant. Answer briefly.''
        ''Analyzing prompt structure...'')\<lparr>feedback := ''Specify the tone.''\<rparr>"

definition busyScanning :: EditorState where
  "busyScanning = fst (handleDeepScan_start exampleState)"

definition suggHelpful :: Suggestion where
  "suggHelpful =
     \<lparr>sugg_id = ''k3x9q2m1a'', originalText = Some (JString ''helpful''),
      suggestedText = Some (JString ''concise and helpful''),
      reason = Some (JString ''Be specific''),
      sugg_type = Some (JString ''clarity'')\<rparr>"

definition suggBriefly :: Suggestion where
  "suggBriefly =
     \<lparr>sugg_id = ''p0o9i8u7y'', originalText = Some (JString ''Answer briefly''),
      suggestedText = Some (JString ''Answer in two sentences''),
      reason = Some (JString ''Be measurable''),
      sugg_type = Some (JString ''clarity'')\<rparr>"

text \<open>The editor after the tip was applied, and after a deep scan that followed.\<close>

definition applied :: EditorState where
  "applied =
     handleApplyFeedback_finish (Inr ''You are a concise assistant. Answer briefly.'')
       (fst (handleApplyFeedback_start exampleState))"

definition appliedThenScanned :: "(rat \<Rightarrow> string) \<Rightarrow> EditorState" where
  "appliedThenScanned numberToString =
     handleDeepScan_finish numberToString (Inr []) (fst (handleDeepScan_start applied))"

text \<open>The same tip applied to an empty prompt.\<close>

definition appliedToEmpty :: EditorState where
  "appliedToEmpty =
     handleApplyFeedback_finish (Inr ''You are a friendly assistant.'')
       (fst (handleApplyFeedback_start (exampleState\<lparr>prompt := ''''\<rparr>)))"

text \<open>A suggestion whose replacement text has dollar signs.\<close>

definition suggPriceRange :: Suggestion where
  "suggPriceRange =
     \<lparr>sugg_id = ''a1b2c3d4e'', originalText = Some (JString ''Rate each restaurant''),
      suggestedText = Some (JString ''Rate each restaurant from $ to $$$''),
      reason = Some (JString ''Give the scale''),
      sugg_type = Some (JString ''clarity'')\<rparr>"

definition restaurantState :: EditorState where
  "restaurantState =
     (useEditorState_init ''Rate each restaurant.'' ''Analyzing prompt structure...'')
       \<lparr>suggestions := [suggPriceRange]\<rparr>"





subsection \<open>Fenced code blocks and the interview examples\<close>

text \<open>
  A body wrapped in a Markdown code fence: the opening fence with the tag \<open>json\<close>, or with
  no tag, on a line of its own, and the closing fence on a line of its own.
\<close>

definition closingFence :: string where
  "closingFence = CHR 0x0A # ''```''"

definition fenced :: "string \<Rightarrow> string" where
  "fenced body = ''```json'' @ [CHR 0x0A] @ body @ closingFence"

definition fencedBare :: "string \<Rightarrow> string" where
  "fencedBare body = ''```'' @ [CHR 0x0A] @ body @ closingFence"

text \<open>A turn of the interview as the model answers it, with four options.\<close>

definition toneJson :: string where
  \<open>toneJson = ''{"question":"What tone?","options":["Friendly","Formal","Neutral","Playful"],"isFinalDraft":false}''\<close>

definition toneValue :: json where
  "toneValue =
     JObject
       [(''question'', JString ''What tone?''),
        (''options'',
         JArray [JString ''Friendly'', JString ''Formal'', JString ''Neutral'',
                 JString ''Playful'']),
        (''isFinalDraft'', JBool False)]"

text \<open>
  \<^verbatim>\<open>JSON.parse\<close> on the texts of the examples: the turn above, the empty object and
  \<open>null\<close>; the other texts of the examples are not JSON.
\<close>

definition parseExamples :: "string \<Rightarrow> json option" where
  "parseExamples s =
     (if s = toneJson then Some toneValue
      else if s = ''{}'' then Some (JObject [])
      else if s = ''null'' then Some JNull
      else None)"

text \<open>A provider that answers every request with the same text.\<close>

definition replyWith :: "string \<Rightarrow> nat provider_api" where
  "replyWith t =
     \<lparr>generateContent = (\<lambda>request n. (Inr (Some t), Suc n)),
      sendMessage = (\<lambda>session message n. (Inr (Some t), Suc n)),
      fetch = (\<lambda>request n.
        (Inr \<lparr>resp_ok = True, resp_status = 200, resp_text = '''', resp_content = Some t\<rparr>,
         Suc n)),
      randomId = (\<lambda>n. (digits n, Suc n))\<rparr>"

text \<open>The default settings with a Gemini key, and interviews started in each language.\<close>

definition geminiSettings :: AppSettings where
  "geminiSettings =
     DEFAULT_APP_SETTINGS\<lparr>api := DEFAULT_API_CONFIG\<lparr>geminiApiKey := ''GEMINI-KEY''\<rparr>\<rparr>"

definition geminiWorld :: "nat world" where
  "geminiWorld = world0\<lparr>currentSettings := geminiSettings\<rparr>"

definition chineseInterview :: "nat world" where
  "chineseInterview = snd (startInterviewSession Chinese geminiWorld)"

definition englishInterview :: "nat world" where
  "englishInterview = snd (startInterviewSession English geminiWorld)"

subsection \<open>Runs of the retry policy on an operation with a fixed outcome\<close>


fun retry_events :: "nat \<Rightarrow> int \<Rightarrow> event \<Rightarrow> event list" where
  "retry_events 0 d ev = [ev]"
| "retry_events (Suc k) d ev = ev # Waited d # retry_events k (d * 2) ev"




definition normalized :: "string option \<Rightarrow> string" where
  "normalized t = (case t of None \<Rightarrow> '''' | Some s \<Rightarrow> toLowerCase (trim s))"

subsection \<open>Providers and settings for the rewrite examples\<close>






text \<open>Settings whose classification and interview models have been deleted.\<close>

definition danglingSettings :: AppSettings where
  "danglingSettings =
     DEFAULT_APP_SETTINGS
       \<lparr>api := DEFAULT_API_CONFIG
          \<lparr>geminiApiKey := ''GEMINI-KEY'',
           models := (\<lambda>f. if f = Classify \<or> f = Interview then ''deleted-model''
                           else DEFAULT_MODELS f)\<rparr>\<rparr>"


subsection \<open>Settings for the key examples\<close>

text \<open>
  Settings with a key at each of the three levels: the interview and the mentor are routed
  to a custom Gemini model with a key of its own, and the global default key and the Gemini
  key are set. The second settings are the same without the global default key.
\<close>

definition keyedModel :: CustomModel where
  "keyedModel =
     \<lparr>model_id = ''my-gemini'', provider = GoogleGemini, modelName = ''gemini-2.5-pro'',
      baseUrl = None, apiKey = Some ''MODEL-KEY''\<rparr>"

definition threeKeySettings :: AppSettings where
  "threeKeySettings =
     DEFAULT_APP_SETTINGS
       \<lparr>api := DEFAULT_API_CONFIG
          \<lparr>geminiApiKey := ''GEMINI-KEY'', defaultApiKey := Some ''DEFAULT-KEY'',
           models := (\<lambda>f. if f = Interview \<or> f = Mentor then ''my-gemini''
                           else DEFAULT_MODELS f),
           customModels := [keyedModel]\<rparr>\<rparr>"

definition threeKeyWorld :: "nat world" where
  "threeKeyWorld = world0\<lparr>currentSettings := threeKeySettings\<rparr>"

definition twoKeySettings :: AppSettings where
  "twoKeySettings =
     DEFAULT_APP_SETTINGS
       \<lparr>api := DEFAULT_API_CONFIG
          \<lparr>geminiApiKey := ''GEMINI-KEY'',
           models := (\<lambda>f. if f = Interview \<or> f = Mentor then ''my-gemini''
                           else DEFAULT_MODELS f),
           customModels := [keyedModel]\<rparr>\<rparr>"

definition twoKeyWorld :: "nat world" where
  "twoKeyWorld = world0\<lparr>currentSettings := twoKeySettings\<rparr>"

text \<open>
  The requests of the examples: the chat the interview of the first settings is held on,
  the request of the mentor there, and the request of a classification under the second
  settings that follows a request of the mentor.
\<close>

definition interviewChat :: chat where
  "interviewChat =
     \<lparr>chat_apiKey = ''GEMINI-KEY'', chat_model = ''gemini-2.5-pro'',
      chat_instruction = InterviewInstruction ''English'' False\<rparr>"

definition mentorRequest :: gen_request where
  "mentorRequest =
     \<lparr>gen_apiKey = ''MODEL-KEY'', gen_model = ''gemini-2.5-pro'', gen_temperature = 5 / 10,
      gen_json = False,
      gen_contents = MentorContents ''A travel planner'' ''Plan a trip.'' [] ''English''\<rparr>"

definition classifyRequest :: gen_request where
  "classifyRequest =
     \<lparr>gen_apiKey = ''MODEL-KEY'', gen_model = ''gemini-3-flash-preview'',
      gen_temperature = 1 / 10, gen_json = False,
      gen_contents = ClassifyContents ''Plan a trip.'' ''a trip''\<rparr>"

text \<open>
  An interview that was started under the settings with the Gemini key, after which the
  settings were replaced by ones whose interview model is deleted.
\<close>

definition interviewThenDeleted :: "nat world" where
  "interviewThenDeleted = updateApiSettings danglingSettings englishInterview"

subsection \<open>A critique with entries that have no original text\<close>

text \<open>
  A prompt that contains the word \<open>undefined\<close>, and the critique of a model whose one
  entry has no \<open>originalText\<close>; \<^verbatim>\<open>JSON.parse\<close> on that text; and the suggestion the
  service makes of the entry, whose id is the first random id of the providers above.
\<close>

definition undefinedState :: EditorState where
  "undefinedState =
     useEditorState_init ''Explain why the function returns undefined.''
       ''Analyzing prompt structure...''"

definition critiqueJson :: string where
  \<open>critiqueJson = ''[{"suggestedText":"Explain why the function returns no value.","reason":"Name the result","type":"clarity"}]''\<close>

definition critiqueValue :: json where
  "critiqueValue =
     JArray
       [JObject
          [(''suggestedText'', JString ''Explain why the function returns no value.''),
           (''reason'', JString ''Name the result''),
           (''type'', JString ''clarity'')]]"

definition parseCritique :: "string \<Rightarrow> json option" where
  "parseCritique s = (if s = critiqueJson then Some critiqueValue else None)"

definition noOriginal :: Suggestion where
  "noOriginal =
     \<lparr>sugg_id = ''1'', originalText = None,
      suggestedText = Some (JString ''Explain why the function returns no value.''),
      reason = Some (JString ''Name the result''), sugg_type = Some (JString ''clarity'')\<rparr>"

text \<open>A prompt that contains the word \<open>null\<close>, and an entry whose \<open>originalText\<close> is \<open>null\<close>.\<close>

definition nullState :: EditorState where
  "nullState =
     useEditorState_init ''Answer null when the user is unknown.''
       ''Analyzing prompt structure...''"

definition nullOriginal :: Suggestion where
  "nullOriginal =
     \<lparr>sugg_id = ''7f3k2m9qa'', originalText = Some JNull,
      suggestedText = Some (JString ''Answer with the word unknown''),
      reason = Some (JString ''Name the value''), sugg_type = Some (JString ''clarity'')\<rparr>"

text \<open>A prompt that contains a number, and an entry whose \<open>originalText\<close> is that number.\<close>

definition topFiveState :: EditorState where
  "topFiveState =
     useEditorState_init ''List the top 5 restaurants.'' ''Analyzing prompt structure...''"

definition numberOriginal :: Suggestion where
  "numberOriginal =
     \<lparr>sugg_id = ''m4n5b6v7c'', originalText = Some (JNumber 5),
      suggestedText = Some (JString ''five''), reason = Some (JString ''Spell the number''),
      sugg_type = Some (JString ''clarity'')\<rparr>"

section \<open>Facts about the string primitives\<close>

text \<open>\<open>includes\<close> is the substring relation, and \<open>indexOf\<close> finds the leftmost occurrence.\<close>

lemma str_includes_sublist: "str_includes s sub \<longleftrightarrow> sublist sub s"
  by (induction s) (auto simp: sublist_Cons_right)

lemma indexOf_SomeD:
  "indexOf s sub = Some pos \<Longrightarrow>
     prefix sub (drop pos s) \<and> pos \<le> length s \<and> (\<forall>j<pos. \<not> prefix sub (drop j s))"
proof (induction s arbitrary: pos)
  case Nil
  then show ?case by (auto split: if_splits)
next
  case (Cons c cs)
  show ?case
  proof (cases "prefix sub (c # cs)")
    case True
    with Cons.prems show ?thesis by simp
  next
    case False
    with Cons.prems obtain q where q: "indexOf cs sub = Some q" and pos: "pos = Suc q"
      by auto
    from Cons.IH[OF q] have ih: "prefix sub (drop q cs)" "q \<le> length cs"
      "\<forall>j<q. \<not> prefix sub (drop j cs)" by auto
    have "\<forall>j<Suc q. \<not> prefix sub (drop j (c # cs))"
    proof (intro allI impI)
      fix j assume "j < Suc q"
      then show "\<not> prefix sub (drop j (c # cs))"
        using False ih(3) by (cases j) auto
    qed
    with ih pos show ?thesis by simp
  qed
qed

lemma indexOf_None_iff: "indexOf s sub = None \<longleftrightarrow> \<not> sublist sub s"
  by (induction s) (auto simp: sublist_Cons_right)

lemma getSubstitution_no_dollar:
  "CHR ''$'' \<notin> set template \<Longrightarrow> getSubstitution matched str position template = template"
  by (induction matched str position template rule: getSubstitution.induct) auto

lemma prefix_drop_decompose:
  assumes "prefix sub (drop pos s)" and "pos \<le> length s"
  shows "s = take pos s @ sub @ drop (pos + length sub) s"
proof -
  from assms(1) obtain r where r: "drop pos s = sub @ r" by (auto simp: prefix_def)
  have "drop (pos + length sub) s = drop (length sub) (drop pos s)"
    by (simp add: add.commute)
  also have "\<dots> = r" by (simp add: r)
  finally have "take pos s @ sub @ drop (pos + length sub) s = take pos s @ drop pos s"
    by (simp add: r)
  then show ?thesis by simp
qed

lemma str_replace_no_dollar:
  assumes "sublist sub s" and "CHR ''$'' \<notin> set new"
  shows "\<exists>pre post. s = pre @ sub @ post
           \<and> (\<forall>pre' post'. s = pre' @ sub @ post' \<longrightarrow> length pre \<le> length pre')
           \<and> str_replace s sub new = pre @ new @ post"
proof -
  from assms(1) obtain pos where pos: "indexOf s sub = Some pos"
    using indexOf_None_iff[of s sub] by (cases "indexOf s sub") auto
  note d = indexOf_SomeD[OF pos]
  let ?pre = "take pos s" and ?post = "drop (pos + length sub) s"
  have dec: "s = ?pre @ sub @ ?post"
    using prefix_drop_decompose d by blast
  have least: "length ?pre \<le> length pre'" if "s = pre' @ sub @ post'" for pre' post'
  proof (rule ccontr)
    assume "\<not> length ?pre \<le> length pre'"
    then have lt: "length pre' < pos" using d by simp
    have "drop (length pre') s = sub @ post'" using that by simp
    then have "prefix sub (drop (length pre') s)" by simp
    with d lt show False by blast
  qed
  have "str_replace s sub new = ?pre @ new @ ?post"
    by (simp add: str_replace_def pos getSubstitution_no_dollar[OF assms(2)])
  with dec least show ?thesis by blast
qed




text \<open>The conversion of a string is the string, and \<open>undefined\<close> and \<open>null\<close> convert to their names.\<close>

lemma ToString_simps:
  "ToString numberToString (Some (JString s)) = Inr s"
  "ToString numberToString None = Inr ''undefined''"
  "ToString numberToString (Some JNull) = Inr ''null''"
  by (simp_all add: ToString_def)
section \<open>The retry policy\<close>












section \<open>The editor: the processing flag\<close>

text \<open>
  The deep scan and the application of feedback return at once while \<open>isProcessing\<close> is
  set. The two reconstructions have no such test: they always set the flag and send their
  request.
\<close>

lemma gated_handlers:
  "isProcessing st \<Longrightarrow> handleDeepScan_start st = (st, None)"
  "isProcessing st \<Longrightarrow> handleApplyFeedback_start st = (st, None)"
  by (simp_all add: handleDeepScan_start_def handleApplyFeedback_start_def)

lemma reconstruct_always_sends:
  "snd (handleGlobalReconstruct_start st) =
     Some (GlobalRewriteRequest (prompt st) (map lock_text (lockedSegments st)))"
  "snd (handlePartialReconstruct_start t s e st) =
     Some (PartialRewriteRequest (prompt st) (map lock_text (lockedSegments st)) s e t)"
  "isProcessing (fst (handleGlobalReconstruct_start st))"
  "processingType (fst (handleGlobalReconstruct_start st)) = Some Reconstruct"
  by (simp_all add: handleGlobalReconstruct_start_def handlePartialReconstruct_start_def)

lemma busyScanning_simps:
  "busyScanning =
     \<lparr>prompt = ''You are a helpful assistant. Answer briefly.'', suggestions = [],
      activeSuggestionId = None, feedback = ''Specify the tone.'', isTyping = False,
      isProcessing = True, processingType = Some Scan, processingSelection = None,
      ignoredFeedbackHistory = [], lastPromptBeforeApply = None, showUndo = False,
      lockedSegments = [], lastFeedbackPrompt = ''''\<rparr>"
  by (simp add: busyScanning_def handleDeepScan_start_def exampleState_def
        useEditorState_init_def)

text \<open>
  Claim C1 says that each of the four operations leaves the state unchanged when it is
  invoked while \<open>isProcessing\<close> is set. On the editor with a deep scan in flight, the deep
  scan and the application of feedback do; the full and the partial reconstruction change
  the processing type, send their request, and the full reconstruction, when its answer
  arrives, replaces the prompt and clears the flag while the scan is still in flight.
\<close>

theorem reconstruct_while_busy:
  "isProcessing busyScanning
   \<and> processingType busyScanning = Some Scan
   \<and> handleDeepScan_start busyScanning = (busyScanning, None)
   \<and> handleApplyFeedback_start busyScanning = (busyScanning, None)
   \<and> handleGlobalReconstruct_start busyScanning =
       (busyScanning\<lparr>processingType := Some Reconstruct\<rparr>,
        Some (GlobalRewriteRequest ''You are a helpful assistant. Answer briefly.'' []))
   \<and> fst (handleGlobalReconstruct_start busyScanning) \<noteq> busyScanning
   \<and> handlePartialReconstruct_start ''helpful'' 10 17 busyScanning =
       (busyScanning\<lparr>processingType := Some Reconstruct,
                      processingSelection := Some (10, 17)\<rparr>,
        Some (PartialRewriteRequest ''You are a helpful assistant. Answer briefly.'' []
                10 17 ''helpful''))
   \<and> fst (handlePartialReconstruct_start ''helpful'' 10 17 busyScanning) \<noteq> busyScanning
   \<and> handleGlobalReconstruct_finish (Inr ''You are a terse expert.'')
         (fst (handleGlobalReconstruct_start busyScanning)) =
       busyScanning\<lparr>prompt := ''You are a terse expert.'', isProcessing := False,
                     processingType := None\<rparr>"
  by (simp add: busyScanning_simps handleDeepScan_start_def handleApplyFeedback_start_def
        handleGlobalReconstruct_start_def handlePartialReconstruct_start_def
        handleGlobalReconstruct_finish_def truthy_str_def)

text \<open>
  On that editor the guard of \<open>handleApplyFeedback\<close> holds through its second disjunct: the
  tip is not empty and the flag is set.
\<close>

theorem reconstruct_while_busy_witness:
  "truthy_str (feedback busyScanning)
   \<and> isProcessing busyScanning
   \<and> snd (handleApplyFeedback_start busyScanning) = None
   \<and> snd (handleDeepScan_start busyScanning) = None
   \<and> snd (handleGlobalReconstruct_start busyScanning) =
       Some (GlobalRewriteRequest ''You are a helpful assistant. Answer briefly.'' [])"
  using reconstruct_while_busy by (simp add: busyScanning_simps truthy_str_def)

section \<open>The editor: undo\<close>

lemma handleUndo_idem: "handleUndo (handleUndo st) = handleUndo st"
  by (simp add: handleUndo_def truthy_opt_def)

lemma apply_then_undo:
  assumes "\<not> isProcessing st" and "feedback st \<noteq> []" and "prompt st \<noteq> []"
  shows "handleUndo (handleApplyFeedback_finish outcome (fst (handleApplyFeedback_start st))) =
           (handleApplyFeedback_finish outcome (fst (handleApplyFeedback_start st)))
             \<lparr>prompt := prompt st, showUndo := False, lastPromptBeforeApply := None\<rparr>"
  using assms
  by (cases outcome)
     (simp_all add: handleUndo_def handleApplyFeedback_finish_def
        handleApplyFeedback_start_def truthy_opt_def truthy_str_def)

text \<open>
  Claim C4, as amended. For every non-empty prompt: when feedback is applied in an idle
  editor with a non-empty tip and then undone, whatever the outcome of the request, the
  prompt is again the one before the apply, and the snapshot and the undo banner are
  gone. \<open>handleUndo\<close> after \<open>handleUndo\<close> changes nothing. The snapshot is one optional value:
  \<open>updatePrompt\<close> clears it when \<open>showUndo\<close> is set and leaves it otherwise; an apply that
  starts overwrites it with the prompt of that moment; \<open>handleUndo\<close> restores and clears a
  non-empty snapshot and does nothing when there is none.
\<close>

theorem undo_single_level:
  "(\<not> isProcessing st \<and> feedback st \<noteq> [] \<and> prompt st \<noteq> [] \<longrightarrow>
      prompt (handleUndo (handleApplyFeedback_finish outcome
                (fst (handleApplyFeedback_start st)))) = prompt st
      \<and> lastPromptBeforeApply (handleUndo (handleApplyFeedback_finish outcome
                (fst (handleApplyFeedback_start st)))) = None
      \<and> \<not> showUndo (handleUndo (handleApplyFeedback_finish outcome
                (fst (handleApplyFeedback_start st)))))
   \<and> handleUndo (handleUndo s) = handleUndo s
   \<and> (showUndo s \<longrightarrow>
        lastPromptBeforeApply (updatePrompt newPrompt s) = None
        \<and> \<not> showUndo (updatePrompt newPrompt s))
   \<and> (\<not> showUndo s \<longrightarrow>
        lastPromptBeforeApply (updatePrompt newPrompt s) = lastPromptBeforeApply s)
   \<and> (\<not> isProcessing s \<and> feedback s \<noteq> [] \<longrightarrow>
        lastPromptBeforeApply (fst (handleApplyFeedback_start s)) = Some (prompt s))
   \<and> (\<forall>p. lastPromptBeforeApply s = Some p \<and> p \<noteq> [] \<longrightarrow>
        prompt (handleUndo s) = p \<and> lastPromptBeforeApply (handleUndo s) = None)
   \<and> (lastPromptBeforeApply s = None \<longrightarrow> handleUndo s = s)"
  using apply_then_undo[of st outcome]
  by (auto simp: handleUndo_idem updatePrompt_def handleApplyFeedback_start_def
        handleUndo_def truthy_opt_def truthy_str_def)

lemma exampleState_simps:
  "exampleState =
     \<lparr>prompt = ''You are a helpful assistant. Answer briefly.'', suggestions = [],
      activeSuggestionId = None, feedback = ''Specify the tone.'', isTyping = False,
      isProcessing = False, processingType = None, processingSelection = None,
      ignoredFeedbackHistory = [], lastPromptBeforeApply = None, showUndo = False,
      lockedSegments = [], lastFeedbackPrompt = ''''\<rparr>"
  by (simp add: exampleState_def useEditorState_init_def)

lemma applied_simps:
  "applied =
     \<lparr>prompt = ''You are a concise assistant. Answer briefly.'', suggestions = [],
      activeSuggestionId = None, feedback = ''Specify the tone.'', isTyping = False,
      isProcessing = False, processingType = None, processingSelection = None,
      ignoredFeedbackHistory = [],
      lastPromptBeforeApply = Some ''You are a helpful assistant. Answer briefly.'',
      showUndo = True, lockedSegments = [], lastFeedbackPrompt = ''''\<rparr>"
  by (simp add: applied_def exampleState_simps handleApplyFeedback_start_def
        handleApplyFeedback_finish_def truthy_str_def)

text \<open>An apply on the example editor, then undo, a second undo, an edit, a second apply.\<close>

theorem undo_single_level_witness:
  "prompt applied = ''You are a concise assistant. Answer briefly.''
   \<and> prompt (handleUndo applied) = ''You are a helpful assistant. Answer briefly.''
   \<and> lastPromptBeforeApply (handleUndo applied) = None
   \<and> handleUndo (handleUndo applied) = handleUndo applied
   \<and> lastPromptBeforeApply (updatePrompt ''You are a calm assistant.'' applied) = None
   \<and> lastPromptBeforeApply (fst (handleApplyFeedback_start applied)) =
       Some ''You are a concise assistant. Answer briefly.''"
proof -
  have h: "\<not> isProcessing exampleState \<and> feedback exampleState \<noteq> []
             \<and> prompt exampleState \<noteq> []"
    by (simp add: exampleState_simps)
  have g: "showUndo applied" "\<not> isProcessing applied \<and> feedback applied \<noteq> []"
    by (simp_all add: applied_simps)
  note t = undo_single_level[of exampleState
             "Inr ''You are a concise assistant. Answer briefly.''" applied
             "''You are a calm assistant.''"]
  from t h have a:
    "prompt (handleUndo applied) = prompt exampleState"
    "lastPromptBeforeApply (handleUndo applied) = None"
    unfolding applied_def by blast+
  from t have b: "handleUndo (handleUndo applied) = handleUndo applied" by blast
  from t g(1) have c:
    "lastPromptBeforeApply (updatePrompt ''You are a calm assistant.'' applied) = None"
    by blast
  from t g(2) have d:
    "lastPromptBeforeApply (fst (handleApplyFeedback_start applied)) = Some (prompt applied)"
    by blast
  show ?thesis
    using a b c d by (simp add: exampleState_simps applied_simps)
qed

lemma appliedThenScanned_simps:
  "appliedThenScanned numberToString = applied\<lparr>showUndo := False\<rparr>"
  by (simp add: appliedThenScanned_def applied_simps handleDeepScan_start_def
        handleDeepScan_finish_def)

lemma appliedToEmpty_simps:
  "appliedToEmpty =
     \<lparr>prompt = ''You are a friendly assistant.'', suggestions = [],
      activeSuggestionId = None, feedback = ''Specify the tone.'', isTyping = False,
      isProcessing = False, processingType = None, processingSelection = None,
      ignoredFeedbackHistory = [], lastPromptBeforeApply = Some '''',
      showUndo = True, lockedSegments = [], lastFeedbackPrompt = ''''\<rparr>"
  by (simp add: appliedToEmpty_def exampleState_simps handleApplyFeedback_start_def
        handleApplyFeedback_finish_def truthy_str_def)

text \<open>
  Claim C4 as stated fails in three places. After an apply and a deep scan, which clears
  \<open>showUndo\<close> only, a manual edit leaves the snapshot, and \<open>handleUndo\<close> then replaces the
  edited prompt by it. A new apply does not clear the snapshot: it sets it to the current
  prompt. After an apply on the empty prompt, \<open>handleUndo\<close> restores nothing and keeps the
  snapshot, because it tests the snapshot for truthiness.
\<close>

theorem undo_snapshot_counterexample:
  "\<forall>numberToString.
     lastPromptBeforeApply
       (updatePrompt ''You are a calm assistant.'' (appliedThenScanned numberToString)) =
       Some ''You are a helpful assistant. Answer briefly.''
     \<and> prompt (handleUndo
           (updatePrompt ''You are a calm assistant.'' (appliedThenScanned numberToString))) =
         ''You are a helpful assistant. Answer briefly.''
     \<and> lastPromptBeforeApply (fst (handleApplyFeedback_start applied)) =
         Some ''You are a concise assistant. Answer briefly.''
     \<and> prompt (handleUndo appliedToEmpty) = ''You are a friendly assistant.''
     \<and> lastPromptBeforeApply (handleUndo appliedToEmpty) = Some ''''"
  by (simp add: appliedThenScanned_simps applied_simps appliedToEmpty_simps updatePrompt_def
        handleUndo_def handleApplyFeedback_start_def truthy_opt_def truthy_str_def)

section \<open>The editor: applying and dismissing a suggestion\<close>

text \<open>
  Dismissing a suggestion leaves the prompt and removes every suggestion with that id;
  applying one removes it in the same way.
\<close>

lemma dismissSuggestion_facts:
  "prompt (dismissSuggestion i st) = prompt st"
  "suggestions (dismissSuggestion i st) = filter (\<lambda>s. sugg_id s \<noteq> i) (suggestions st)"
  "\<forall>s \<in> set (suggestions (dismissSuggestion i st)). sugg_id s \<noteq> i"
  by (simp_all add: dismissSuggestion_def)

text \<open>
  When both texts of the suggestion convert to strings, \<open>applySuggestion\<close> sets the prompt to
  the result of \<open>replace\<close> on them; when one does not, it throws and sets nothing.
\<close>

lemma applySuggestion_converted:
  assumes "ToString numberToString (originalText sg) = Inr orig"
    and "ToString numberToString (suggestedText sg) = Inr template"
  shows "applySuggestion numberToString sg st =
           Inr (st\<lparr>prompt := str_replace (prompt st) orig template,
                   suggestions := filter (\<lambda>s. sugg_id s \<noteq> sugg_id sg) (suggestions st),
                   activeSuggestionId := None\<rparr>)"
  using assms by (simp add: applySuggestion_def replace_value_def)


lemma applySuggestion_suggestions:
  assumes "applySuggestion numberToString sg st = Inr st'"
  shows "suggestions st' = filter (\<lambda>s. sugg_id s \<noteq> sugg_id sg) (suggestions st)"
    and "sg \<notin> set (suggestions st')"
  using assms by (auto simp: applySuggestion_def split: sum.splits)

text \<open>
  When the replacement text has no dollar sign, the leftmost occurrence of the original text
  is replaced by it, and nothing else changes.
\<close>

lemma applySuggestion_literal:
  assumes "originalText sg = Some (JString orig)" and "suggestedText sg = Some (JString new)"
    and "sublist orig (prompt st)" and "CHR ''$'' \<notin> set new"
  shows "\<exists>pre post. prompt st = pre @ orig @ post
           \<and> (\<forall>pre' post'. prompt st = pre' @ orig @ post' \<longrightarrow> length pre \<le> length pre')
           \<and> map_sum id prompt (applySuggestion numberToString sg st) = Inr (pre @ new @ post)"
  using str_replace_no_dollar[OF assms(3,4)]
  by (simp add: applySuggestion_converted[of numberToString sg orig new] assms(1,2)
        ToString_simps)

text \<open>
  Claim C7 says that \<open>applySuggestion\<close> replaces the span of \<open>originalText\<close> by
  \<open>suggestedText\<close>. The source passes \<open>suggestedText\<close> to \<^verbatim>\<open>String.prototype.replace\<close> as
  a replacement template, in which \<open>$$\<close> stands for one dollar sign: the suggestion to write
  \<open>from $ to $$$\<close> puts \<open>from $ to $$\<close> into the prompt.
\<close>

theorem applySuggestion_dollar_pattern:
  "prompt restaurantState = ''Rate each restaurant.''
   \<and> originalText suggPriceRange = Some (JString ''Rate each restaurant'')
   \<and> suggestedText suggPriceRange = Some (JString ''Rate each restaurant from $ to $$$'')
   \<and> map_sum id prompt (applySuggestion numberToString suggPriceRange restaurantState) =
       Inr ''Rate each restaurant from $ to $$.''
   \<and> map_sum id prompt (applySuggestion numberToString suggPriceRange restaurantState) \<noteq>
       Inr ''Rate each restaurant from $ to $$$.''
   \<and> map_sum id suggestions (applySuggestion numberToString suggPriceRange restaurantState) =
       Inr []"
  by (simp add: applySuggestion_def replace_value_def ToString_simps restaurantState_def
        suggPriceRange_def useEditorState_init_def str_replace_def)





section \<open>The interview: cleaning and parsing the response\<close>

lemma prefix_across:
  assumes "prefix p (b @ s)" and "\<not> prefix p b"
  shows "\<exists>q. q \<noteq> [] \<and> p = b @ q \<and> prefix q s"
  using assms by (auto simp: prefix_append)

lemma no_newline_prefix:
  assumes "CHR 0x0A \<notin> set p"
  shows "prefix p (b @ closingFence) \<longleftrightarrow> prefix p b"
proof
  assume a: "prefix p (b @ closingFence)"
  show "prefix p b"
  proof (rule ccontr)
    assume "\<not> prefix p b"
    from prefix_across[OF a this] obtain q where q: "q \<noteq> []" "p = b @ q" "prefix q closingFence"
      by blast
    then have "hd q = CHR 0x0A" by (cases q) (auto simp: closingFence_def)
    with q have "CHR 0x0A \<in> set p" by (cases q) auto
    with assms show False by simp
  qed
next
  assume "prefix p b" then show "prefix p (b @ closingFence)" by (simp add: prefix_prefix)
qed

lemma fence_prefix:
  assumes "b \<noteq> []"
  shows "prefix closingFence (b @ closingFence) \<longleftrightarrow> prefix closingFence b"
proof
  assume a: "prefix closingFence (b @ closingFence)"
  show "prefix closingFence b"
  proof (rule ccontr)
    assume "\<not> prefix closingFence b"
    from prefix_across[OF a this] obtain q where q: "q \<noteq> []" "closingFence = b @ q"
      "prefix q closingFence" by blast
    from q(1,3) have hq: "hd q = CHR 0x0A" by (cases q) (auto simp: closingFence_def)
    from assms obtain c cs where b: "b = c # cs" by (cases b) auto
    from q(1) obtain d ds where qd: "q = d # ds" by (cases q) auto
    from q(2) have "tl closingFence = tl (c # cs @ q)" by (simp only: b append_Cons)
    then have "tl closingFence = cs @ q" by simp
    then have "d \<in> set (tl closingFence)" by (simp add: qd)
    with hq qd show False by (simp add: closingFence_def)
  qed
next
  assume "prefix closingFence b" then show "prefix closingFence (b @ closingFence)"
    by (simp add: prefix_prefix)
qed

lemma strip_closing: "stripCodeFences closingFence = []"
  by (simp add: stripCodeFences.simps closingFence_def)

lemma strip_three: "stripCodeFences ''```'' = []"
  by (simp add: stripCodeFences.simps)

lemma stripCodeFences_closing: "stripCodeFences (b @ closingFence) = stripCodeFences b"
proof (induction b rule: stripCodeFences.induct)
  case (1 s)
  have nl1: "CHR 0x0A \<notin> set ''```json''" and nl3: "CHR 0x0A \<notin> set ''```''" by simp_all
  note p1 = no_newline_prefix[OF nl1, of s] and p3 = no_newline_prefix[OF nl3, of s]
  show ?case
  proof (cases "s = []")
    case True
    then show ?thesis by (simp add: strip_closing stripCodeFences.simps[of "[]"])
  next
    case ne: False
    note p2 = fence_prefix[OF ne]
    show ?thesis
    proof (cases "prefix ''```json'' s")
      case True
      then obtain r where r: "s = ''```json'' @ r" by (auto simp: prefix_def)
      show ?thesis
      proof (cases r)
        case Nil
        have "stripCodeFences (s @ closingFence) = stripCodeFences ''```''"
          by (subst stripCodeFences.simps) (simp add: r Nil closingFence_def)
        moreover have "stripCodeFences s = stripCodeFences []"
          by (subst stripCodeFences.simps) (simp add: r Nil)
        ultimately show ?thesis by (simp add: strip_three stripCodeFences.simps[of "[]"])
      next
        case (Cons c r')
        show ?thesis
        proof (cases "c = CHR 0x0A")
          case True
          have nl: "prefix [CHR 0x0A] (drop 7 s)" by (simp add: r Cons True)
          have a: "stripCodeFences (s @ closingFence) = stripCodeFences (drop 8 s @ closingFence)"
            by (subst stripCodeFences.simps) (simp add: r Cons True)
          have b: "stripCodeFences s = stripCodeFences (drop 8 s)"
            by (subst stripCodeFences.simps) (simp add: r Cons True)
          from "1.IH"(1)[OF ne \<open>prefix ''```json'' s\<close> nl] a b show ?thesis by simp
        next
          case False
          have nl: "\<not> prefix [CHR 0x0A] (drop 7 s)" using False by (simp add: r Cons)
          have a: "stripCodeFences (s @ closingFence) = stripCodeFences (drop 7 s @ closingFence)"
            using False by (subst stripCodeFences.simps) (simp add: r Cons)
          have b: "stripCodeFences s = stripCodeFences (drop 7 s)"
            using False by (subst stripCodeFences.simps) (simp add: r Cons)
          from "1.IH"(2)[OF ne \<open>prefix ''```json'' s\<close> nl] a b show ?thesis by simp
        qed
      qed
    next
      case nj: False
      then have nj': "\<not> prefix ''```json'' (s @ closingFence)" using p1 by simp
      show ?thesis
      proof (cases "prefix closingFence s")
        case True
        then obtain r where r: "s = closingFence @ r" by (auto simp: prefix_def)
        have t': "prefix (CHR 0x0A # ''```'') s" using True by (simp add: closingFence_def)
        have a: "stripCodeFences (s @ closingFence) = stripCodeFences (drop 4 s @ closingFence)"
          by (subst stripCodeFences.simps) (simp add: r closingFence_def)
        have b: "stripCodeFences s = stripCodeFences (drop 4 s)"
          by (subst stripCodeFences.simps) (simp add: r closingFence_def)
        from "1.IH"(3)[OF ne nj t'] a b show ?thesis by simp
      next
        case nf: False
        then have nf': "\<not> prefix closingFence (s @ closingFence)" using p2 by simp
        have nf2: "\<not> prefix (CHR 0x0A # ''```'') s" using nf by (simp add: closingFence_def)
        show ?thesis
        proof (cases "prefix ''```'' s")
          case True
          then obtain r where r: "s = ''```'' @ r" by (auto simp: prefix_def)
          have t': "prefix ''```'' (s @ closingFence)" using True by (simp add: prefix_prefix)
          have nf3: "\<not> prefix (CHR 0x0A # ''```'') (s @ closingFence)"
            using nf' by (simp add: closingFence_def)
          have ne': "s @ closingFence \<noteq> []" using ne by simp
          have "stripCodeFences (s @ closingFence) = stripCodeFences (drop 3 (s @ closingFence))"
            by (subst stripCodeFences.simps) (simp only: nj' nf3 t' ne' if_False if_True)
          then have a: "stripCodeFences (s @ closingFence) =
                          stripCodeFences (drop 3 s @ closingFence)"
            by (simp add: r)
          have b: "stripCodeFences s = stripCodeFences (drop 3 s)"
            by (subst stripCodeFences.simps) (simp only: nj nf2 True ne if_False if_True)
          from "1.IH"(4)[OF ne nj nf2 True] a b show ?thesis by simp
        next
          case nt: False
          then have nt': "\<not> prefix ''```'' (s @ closingFence)" using p3 by simp
          obtain c cs where cs: "s = c # cs" using ne by (cases s) auto
          have nf3: "\<not> prefix (CHR 0x0A # ''```'') (s @ closingFence)"
            using nf' by (simp add: closingFence_def)
          have ne': "s @ closingFence \<noteq> []" using ne by simp
          have a: "stripCodeFences (s @ closingFence) =
                     hd (s @ closingFence) # stripCodeFences (tl (s @ closingFence))"
            by (subst stripCodeFences.simps) (simp only: nj' nf3 nt' ne' if_False)
          have b: "stripCodeFences s = hd s # stripCodeFences (tl s)"
            by (subst stripCodeFences.simps) (simp only: nj nf2 nt ne if_False)
          from "1.IH"(5)[OF ne nj nf2 nt] a b ne show ?thesis by simp
        qed
      qed
    qed
  qed
qed

lemma stripCodeFences_fenced: "stripCodeFences (fenced body) = stripCodeFences body"
proof -
  have "stripCodeFences (fenced body) = stripCodeFences (body @ closingFence)"
    by (subst stripCodeFences.simps) (simp add: fenced_def)
  then show ?thesis by (simp add: stripCodeFences_closing)
qed

lemma stripCodeFences_fencedBare:
  assumes "\<not> prefix ''```'' body"
  shows "stripCodeFences (fencedBare body) = CHR 0x0A # stripCodeFences body"
proof -
  have a: "stripCodeFences (fencedBare body) = stripCodeFences (CHR 0x0A # body @ closingFence)"
    by (subst stripCodeFences.simps) (simp add: fencedBare_def)
  have "\<not> prefix ''```'' (body @ closingFence)"
    using assms no_newline_prefix[of "''```''" body] by simp
  then have "stripCodeFences (CHR 0x0A # body @ closingFence) =
               CHR 0x0A # stripCodeFences (body @ closingFence)"
    by (subst stripCodeFences.simps) simp
  with a show ?thesis by (simp add: stripCodeFences_closing)
qed

lemma trim_newline: "trim (CHR 0x0A # s) = trim s"
  by (simp add: trim_def isWhiteSpace_def)

lemma stripCodeFences_plain: "CHR 0x60 \<notin> set s \<Longrightarrow> stripCodeFences s = s"
proof (induction s)
  case Nil
  show ?case by (simp add: stripCodeFences.simps)
next
  case (Cons c cs)
  then have c: "c \<noteq> CHR 0x60" and cs: "CHR 0x60 \<notin> set cs" by auto
  have "\<not> prefix ''```'' cs" using cs by (cases cs) auto
  with c Cons.IH[OF cs] show ?case
    by (subst stripCodeFences.simps) simp
qed

lemma parseInterviewResponse_fenced:
  "parseInterviewResponse JSON_parse (fenced body) = parseInterviewResponse JSON_parse body"
  by (simp add: parseInterviewResponse_def stripCodeFences_fenced)

lemma parseInterviewResponse_fencedBare:
  "\<not> prefix ''```'' body \<Longrightarrow>
     parseInterviewResponse JSON_parse (fencedBare body) = parseInterviewResponse JSON_parse body"
  by (simp add: parseInterviewResponse_def stripCodeFences_fencedBare trim_newline)

lemma parseInterviewResponse_failure:
  "JSON_parse (trim (stripCodeFences t)) = None \<or> JSON_parse (trim (stripCodeFences t)) = Some JNull
     \<Longrightarrow> parseInterviewResponse JSON_parse t = parseErrorResponse"
  by (auto simp: parseInterviewResponse_def)

lemma parseInterviewResponse_success:
  assumes "JSON_parse (trim (stripCodeFences t)) = Some json" and "json \<noteq> JNull"
  shows "options (parseInterviewResponse JSON_parse t) =
           (case propOf json ''options'' of Some (JArray xs) \<Rightarrow> take 3 xs | _ \<Rightarrow> [])"
    and "length (options (parseInterviewResponse JSON_parse t)) \<le> 3"
    and "isFinalDraft (parseInterviewResponse JSON_parse t) = truthy (propOf json ''isFinalDraft'')"
    and "generatedPrompt (parseInterviewResponse JSON_parse t) = propOf json ''generatedPrompt''"
    and "question (parseInterviewResponse JSON_parse t) =
           (if truthy (propOf json ''question'') then the (propOf json ''question'')
            else if truthy (propOf json ''Question'') then the (propOf json ''Question'')
            else JString ''...'')"
  using assms
  by (cases json; simp add: parseInterviewResponse_def propOf_def
        split: option.splits json.splits)+

section \<open>The interview: a turn\<close>

lemma callWithRetry_success:
  "apiCall w = (Inr v, w') \<Longrightarrow> callWithRetry apiCall retries d w = (Inr v, w')"
  by (subst callWithRetry.simps) simp

lemma sendInterviewMessage_gemini:
  assumes "interviewChatSession w = Some session" and "deepseekChatHistory w = []"
    and "sendMessage p session message (net w) = (Inr t, n')"
  shows "sendInterviewMessage p JSON_parse message language w =
           (Inr (parseInterviewResponse JSON_parse (or_else t ''{}'')),
            w\<lparr>net := n', trace := trace w @ [SendMessage session message]\<rparr>)"
proof -
  have "do_sendMessage p session message w =
          (Inr t, w\<lparr>net := n', trace := trace w @ [SendMessage session message]\<rparr>)"
    by (simp add: do_sendMessage_def assms)
  then have "callWithRetry_default (do_sendMessage p session message) w =
          (Inr t, w\<lparr>net := n', trace := trace w @ [SendMessage session message]\<rparr>)"
    unfolding callWithRetry_default_def by (rule callWithRetry_success)
  then show ?thesis
    by (simp add: sendInterviewMessage_def interviewResponseText_def assms)
qed

lemma sendInterviewMessage_openai:
  assumes "deepseekChatHistory w \<noteq> []"
    and "getModelConfigForFeature Interview w = Some modelConfig"
    and "\<And>request. fetch p request (net w) = (Inr response, n')"
    and "resp_ok response"
  shows "fst (sendInterviewMessage p JSON_parse message language w) =
           Inr (parseInterviewResponse JSON_parse (or_else (resp_content response) ''''))"
  using assms
  by (simp add: sendInterviewMessage_def interviewResponseText_def callOpenAICompatible_def
        do_fetch_def getModelConfigForFeature_def Let_def)

lemma geminiFlash_config:
  "getModelConfigForFeature Interview geminiWorld =
     Some \<lparr>model_id = ''gemini-flash'', provider = GoogleGemini,
           modelName = ''gemini-3-flash-preview'', baseUrl = None, apiKey = None\<rparr>"
  by (simp add: getModelConfigForFeature_def geminiWorld_def geminiSettings_def world0_def
        DEFAULT_APP_SETTINGS_def DEFAULT_API_CONFIG_def DEFAULT_MODELS_def getModelById_def
        getAllModels_def PREDEFINED_MODELS_def)

lemma geminiWorld_fields:
  "aiClient geminiWorld = None"
  "geminiApiKey (api (currentSettings geminiWorld)) = ''GEMINI-KEY''"
  "interviewChatSession geminiWorld = None"
  "deepseekChatHistory geminiWorld = []"
  "net geminiWorld = 0"
  "trace geminiWorld = []"
  by (simp_all add: geminiWorld_def geminiSettings_def world0_def DEFAULT_APP_SETTINGS_def
        DEFAULT_API_CONFIG_def)

lemma interview_worlds:
  "chineseInterview =
     geminiWorld\<lparr>aiClient := Some ''GEMINI-KEY'',
       interviewChatSession :=
         Some \<lparr>chat_apiKey = ''GEMINI-KEY'', chat_model = ''gemini-3-flash-preview'',
               chat_instruction = InterviewInstruction ''Simplified Chinese'' False\<rparr>\<rparr>"
  "englishInterview =
     geminiWorld\<lparr>aiClient := Some ''GEMINI-KEY'',
       interviewChatSession :=
         Some \<lparr>chat_apiKey = ''GEMINI-KEY'', chat_model = ''gemini-3-flash-preview'',
               chat_instruction = InterviewInstruction ''English'' False\<rparr>\<rparr>"
  by (simp_all add: chineseInterview_def englishInterview_def startInterviewSession_def
        geminiFlash_config isOpenAICompatible_def getAiClient_def truthy_opt_def langName_def
        geminiWorld_fields Let_def)

text \<open>
  Claim C5, as amended. For every parser and every body, a response wrapped in a \<open>json\<close>
  fence gives the same result as the body itself, and so does one wrapped in a fence with
  no tag when the body does not itself start with a fence. When the cleaned text does not
  parse, or parses to \<open>null\<close>, the result is the fixed response \<open>parseErrorResponse\<close>, whose
  question is an English sentence whatever the language of the interview. When it parses
  to another value, the options are the first three entries of its \<open>options\<close> array (none
  when that is not an array), \<open>isFinalDraft\<close> is the truthiness of its property and
  \<open>generatedPrompt\<close> is its property, \<open>undefined\<close> when absent. \<open>sendInterviewMessage\<close>
  returns this result, without throwing, for whatever text a Gemini session or an
  OpenAI-compatible end point answers.
\<close>

theorem interview_response_parsing:
  "parseInterviewResponse JSON_parse (fenced body) = parseInterviewResponse JSON_parse body
   \<and> (\<not> prefix ''```'' body \<longrightarrow>
        parseInterviewResponse JSON_parse (fencedBare body) =
          parseInterviewResponse JSON_parse body)
   \<and> (JSON_parse (trim (stripCodeFences t)) = None \<longrightarrow>
        parseInterviewResponse JSON_parse t = parseErrorResponse)
   \<and> (JSON_parse (trim (stripCodeFences t)) = Some JNull \<longrightarrow>
        parseInterviewResponse JSON_parse t = parseErrorResponse)
   \<and> (\<forall>json. JSON_parse (trim (stripCodeFences t)) = Some json \<and> json \<noteq> JNull \<longrightarrow>
        length (options (parseInterviewResponse JSON_parse t)) \<le> 3
        \<and> options (parseInterviewResponse JSON_parse t) =
            (case propOf json ''options'' of Some (JArray xs) \<Rightarrow> take 3 xs | _ \<Rightarrow> [])
        \<and> isFinalDraft (parseInterviewResponse JSON_parse t) =
            truthy (propOf json ''isFinalDraft'')
        \<and> generatedPrompt (parseInterviewResponse JSON_parse t) =
            propOf json ''generatedPrompt'')
   \<and> (interviewChatSession w = Some session \<and> deepseekChatHistory w = []
        \<and> sendMessage p session message (net w) = (Inr answer, n') \<longrightarrow>
        sendInterviewMessage p JSON_parse message language w =
          (Inr (parseInterviewResponse JSON_parse (or_else answer ''{}'')),
           w\<lparr>net := n', trace := trace w @ [SendMessage session message]\<rparr>))
   \<and> (deepseekChatHistory w \<noteq> []
        \<and> getModelConfigForFeature Interview w = Some modelConfig
        \<and> (\<forall>request. fetch p request (net w) = (Inr response, n')) \<and> resp_ok response \<longrightarrow>
        fst (sendInterviewMessage p JSON_parse message language w) =
          Inr (parseInterviewResponse JSON_parse (or_else (resp_content response) '''')))"
proof (intro conjI impI allI)
  show "parseInterviewResponse JSON_parse (fenced body) = parseInterviewResponse JSON_parse body"
    by (rule parseInterviewResponse_fenced)
next
  assume "\<not> prefix ''```'' body"
  then show "parseInterviewResponse JSON_parse (fencedBare body) =
          parseInterviewResponse JSON_parse body"
    by (rule parseInterviewResponse_fencedBare)
next
  assume "JSON_parse (trim (stripCodeFences t)) = None"
  then show "parseInterviewResponse JSON_parse t = parseErrorResponse"
    by (simp add: parseInterviewResponse_failure)
next
  assume "JSON_parse (trim (stripCodeFences t)) = Some JNull"
  then show "parseInterviewResponse JSON_parse t = parseErrorResponse"
    by (simp add: parseInterviewResponse_failure)
next
  fix json
  assume a: "JSON_parse (trim (stripCodeFences t)) = Some json \<and> json \<noteq> JNull"
  then have a1: "JSON_parse (trim (stripCodeFences t)) = Some json" and a2: "json \<noteq> JNull"
    by simp_all
  note s = parseInterviewResponse_success[of JSON_parse t json, OF a1 a2]
  show "length (options (parseInterviewResponse JSON_parse t)) \<le> 3" by (rule s(2))
  show "options (parseInterviewResponse JSON_parse t) =
            (case propOf json ''options'' of Some (JArray xs) \<Rightarrow> take 3 xs | _ \<Rightarrow> [])"
    by (rule s(1))
  show "isFinalDraft (parseInterviewResponse JSON_parse t) =
            truthy (propOf json ''isFinalDraft'')" by (rule s(3))
  show "generatedPrompt (parseInterviewResponse JSON_parse t) =
            propOf json ''generatedPrompt''" by (rule s(4))
next
  assume a: "interviewChatSession w = Some session \<and> deepseekChatHistory w = []
        \<and> sendMessage p session message (net w) = (Inr answer, n')"
  show "sendInterviewMessage p JSON_parse message language w =
          (Inr (parseInterviewResponse JSON_parse (or_else answer ''{}'')),
           w\<lparr>net := n', trace := trace w @ [SendMessage session message]\<rparr>)"
    by (rule sendInterviewMessage_gemini[of w session p message answer n']) (use a in auto)
next
  assume a: "deepseekChatHistory w \<noteq> []
        \<and> getModelConfigForFeature Interview w = Some modelConfig
        \<and> (\<forall>request. fetch p request (net w) = (Inr response, n')) \<and> resp_ok response"
  show "fst (sendInterviewMessage p JSON_parse message language w) =
          Inr (parseInterviewResponse JSON_parse (or_else (resp_content response) ''''))"
    by (rule sendInterviewMessage_openai[of w modelConfig p response n']) (use a in auto)
qed

lemma toneJson_clean: "trim (stripCodeFences toneJson) = toneJson"
proof -
  have "CHR 0x60 \<notin> set toneJson" by (simp add: toneJson_def)
  then have "stripCodeFences toneJson = toneJson" by (rule stripCodeFences_plain)
  moreover have "trim toneJson = toneJson"
    by (simp add: trim_def isWhiteSpace_def toneJson_def)
  ultimately show ?thesis by simp
qed

lemma parse_toneJson:
  "parseInterviewResponse parseExamples toneJson =
     \<lparr>question = JString ''What tone?'',
      options = [JString ''Friendly'', JString ''Formal'', JString ''Neutral''],
      isFinalDraft = False, generatedPrompt = None\<rparr>"
  by (simp add: parseInterviewResponse_def toneJson_clean parseExamples_def toneValue_def
        propOf_def)

lemma notJson_clean:
  "trim (stripCodeFences ''I cannot answer in JSON.'') = ''I cannot answer in JSON.''"
proof -
  have "stripCodeFences ''I cannot answer in JSON.'' = ''I cannot answer in JSON.''"
    by (rule stripCodeFences_plain) simp
  then show ?thesis by (simp add: trim_def isWhiteSpace_def)
qed

lemma parse_notJson:
  "parseInterviewResponse parseExamples ''I cannot answer in JSON.'' = parseErrorResponse"
  by (simp add: parseInterviewResponse_def notJson_clean parseExamples_def toneJson_def)

lemma interview_sessions:
  "interviewChatSession englishInterview =
     Some \<lparr>chat_apiKey = ''GEMINI-KEY'', chat_model = ''gemini-3-flash-preview'',
           chat_instruction = InterviewInstruction ''English'' False\<rparr>"
  "interviewChatSession chineseInterview =
     Some \<lparr>chat_apiKey = ''GEMINI-KEY'', chat_model = ''gemini-3-flash-preview'',
           chat_instruction = InterviewInstruction ''Simplified Chinese'' False\<rparr>"
  "deepseekChatHistory englishInterview = []"
  "deepseekChatHistory chineseInterview = []"
  "net englishInterview = 0"
  "net chineseInterview = 0"
  by (simp_all add: interview_worlds geminiWorld_fields)

text \<open>
  The model answers the first turn of an English interview with a fenced object that has
  four options: the result has the first three.
\<close>

theorem interview_response_parsing_witness:
  "parseInterviewResponse parseExamples (fenced toneJson) =
     \<lparr>question = JString ''What tone?'',
      options = [JString ''Friendly'', JString ''Formal'', JString ''Neutral''],
      isFinalDraft = False, generatedPrompt = None\<rparr>
   \<and> parseInterviewResponse parseExamples (fencedBare toneJson) =
       parseInterviewResponse parseExamples toneJson
   \<and> parseInterviewResponse parseExamples ''I cannot answer in JSON.'' = parseErrorResponse
   \<and> fst (sendInterviewMessage (replyWith (fenced toneJson)) parseExamples
             ''I want a customer support bot'' English englishInterview) =
       Inr \<lparr>question = JString ''What tone?'',
            options = [JString ''Friendly'', JString ''Formal'', JString ''Neutral''],
            isFinalDraft = False, generatedPrompt = None\<rparr>"
proof -
  let ?session = "\<lparr>chat_apiKey = ''GEMINI-KEY'', chat_model = ''gemini-3-flash-preview'',
                    chat_instruction = InterviewInstruction ''English'' False\<rparr>"
  note T = interview_response_parsing[where JSON_parse = parseExamples and body = toneJson
      and t = "''I cannot answer in JSON.''" and w = englishInterview and session = ?session
      and p = "replyWith (fenced toneJson)" and message = "''I want a customer support bot''"
      and answer = "Some (fenced toneJson)" and n' = "Suc 0" and language = English]
  have nb: "\<not> prefix ''```'' toneJson" by (simp add: toneJson_def)
  have np: "parseExamples (trim (stripCodeFences ''I cannot answer in JSON.'')) = None"
    by (simp add: notJson_clean parseExamples_def toneJson_def)
  have hs: "interviewChatSession englishInterview = Some ?session
            \<and> deepseekChatHistory englishInterview = []
            \<and> sendMessage (replyWith (fenced toneJson)) ?session
                 ''I want a customer support bot'' (net englishInterview) =
                (Inr (Some (fenced toneJson)), Suc 0)"
    by (simp add: interview_sessions replyWith_def)
  have f: "truthy_str (fenced toneJson)" by (simp add: truthy_str_def fenced_def)
  from T have a: "parseInterviewResponse parseExamples (fenced toneJson) =
                    parseInterviewResponse parseExamples toneJson" by blast
  from T nb have b: "parseInterviewResponse parseExamples (fencedBare toneJson) =
                    parseInterviewResponse parseExamples toneJson" by blast
  from T np have c: "parseInterviewResponse parseExamples ''I cannot answer in JSON.'' =
                    parseErrorResponse" by blast
  from T hs have d: "sendInterviewMessage (replyWith (fenced toneJson)) parseExamples
             ''I want a customer support bot'' English englishInterview =
          (Inr (parseInterviewResponse parseExamples (or_else (Some (fenced toneJson)) ''{}'')),
           englishInterview\<lparr>net := Suc 0,
             trace := trace englishInterview
                @ [SendMessage ?session ''I want a customer support bot'']\<rparr>)"
    by blast
  show ?thesis
    using a b c d f by (simp add: parse_toneJson or_else_def)
qed

text \<open>
  Claim C5 as stated fails in two places. The response to a text that does not parse is the
  same in a Chinese and in an English interview, and its question is the English sentence:
  it is not localized. A fence with another tag, here \<open>JSON\<close> in capitals, is removed
  without its tag, and the response is the parse failure, not the result for the body.
\<close>

theorem parse_error_not_localized:
  "fst (sendInterviewMessage (replyWith ''I cannot answer in JSON.'') parseExamples
          ''hello'' Chinese chineseInterview) = Inr parseErrorResponse
   \<and> fst (sendInterviewMessage (replyWith ''I cannot answer in JSON.'') parseExamples
          ''hello'' English englishInterview) = Inr parseErrorResponse
   \<and> question parseErrorResponse =
       JString ''System Error: Could not parse AI response. Please try again.''
   \<and> parseInterviewResponse parseExamples (''```JSON'' @ [CHR 0x0A] @ ''{}'' @ closingFence) =
       parseErrorResponse
   \<and> parseInterviewResponse parseExamples ''{}'' =
       \<lparr>question = JString ''...'', options = [], isFinalDraft = False,
        generatedPrompt = None\<rparr>"
proof -
  have t: "truthy_str ''I cannot answer in JSON.''" by (simp add: truthy_str_def)
  have a: "fst (sendInterviewMessage (replyWith ''I cannot answer in JSON.'') parseExamples
          ''hello'' Chinese chineseInterview) = Inr parseErrorResponse"
    by (subst sendInterviewMessage_gemini[where n' = "Suc 0"
            and t = "Some ''I cannot answer in JSON.''"])
       (simp_all add: interview_sessions replyWith_def or_else_def t parse_notJson)
  have b: "fst (sendInterviewMessage (replyWith ''I cannot answer in JSON.'') parseExamples
          ''hello'' English englishInterview) = Inr parseErrorResponse"
    by (subst sendInterviewMessage_gemini[where n' = "Suc 0"
            and t = "Some ''I cannot answer in JSON.''"])
       (simp_all add: interview_sessions replyWith_def or_else_def t parse_notJson)
  have c: "trim (stripCodeFences (''```JSON'' @ [CHR 0x0A] @ ''{}'' @ closingFence)) =
             ''JSON'' @ [CHR 0x0A] @ ''{}''"
    by (simp add: stripCodeFences.simps closingFence_def trim_def isWhiteSpace_def)
  have d: "parseInterviewResponse parseExamples (''```JSON'' @ [CHR 0x0A] @ ''{}'' @ closingFence)
             = parseErrorResponse"
    unfolding parseInterviewResponse_def c by (simp add: parseExamples_def toneJson_def)
  have e: "trim (stripCodeFences ''{}'') = ''{}''"
    by (simp add: stripCodeFences.simps trim_def isWhiteSpace_def)
  have f: "parseInterviewResponse parseExamples ''{}'' =
       \<lparr>question = JString ''...'', options = [], isFinalDraft = False,
        generatedPrompt = None\<rparr>"
    unfolding parseInterviewResponse_def e
    by (simp add: parseExamples_def toneJson_def propOf_def)
  show ?thesis using a b d f by (simp add: parseErrorResponse_def)
qed

section \<open>Runs of the retry policy with a fixed outcome\<close>




lemma waits_of_retry_events:
  "waits_of [ev] = [] \<Longrightarrow> waits_of (retry_events k d ev) = map (\<lambda>i. d * 2 ^ i) [0..<k]"
proof (induction k d ev rule: retry_events.induct)
  case (1 d ev)
  then show ?case by simp
next
  case (2 k d ev)
  have m: "map (\<lambda>i. d * 2 ^ i) [0..<Suc k] = d # map (\<lambda>i. (d * 2) * 2 ^ i) [0..<k]"
    by (simp add: upt_conv_Cons map_Suc_upt[symmetric] del: upt_Suc)
  from 2 show ?case unfolding m by (cases ev) (simp_all del: upt_Suc)
qed


text \<open>A request that succeeds at once is sent once, with no delay.\<close>

lemma generateWithRetry_success:
  assumes "generateContent p
             \<lparr>gen_apiKey = ai, gen_model = model, gen_temperature = temp, gen_json = json,
              gen_contents = c\<rparr> (net w) = (Inr t, n')"
  shows "generateWithRetry p ai model temp json c w =
           (Inr t,
            w\<lparr>net := n',
               trace := trace w @
                 [GenerateContent
                    \<lparr>gen_apiKey = ai, gen_model = model, gen_temperature = temp,
                     gen_json = json, gen_contents = c\<rparr>]\<rparr>)"
  unfolding generateWithRetry_def callWithRetry_default_def
  by (rule callWithRetry_success) (simp add: do_generateContent_def assms)

section \<open>The full rewrite and its fallback\<close>













section \<open>The classification of a locked segment\<close>















section \<open>The feature-to-model router\<close>

text \<open>
  \<open>getApiKeyForModel\<close> takes the first truthy key of the model, the global default and the
  provider; the operations look their model up first and throw when there is none.
\<close>

lemma getApiKeyForModel_priority:
  "truthy_opt (apiKey m) \<Longrightarrow> getApiKeyForModel m s = the (apiKey m)"
  "\<not> truthy_opt (apiKey m) \<Longrightarrow> truthy_opt (defaultApiKey (api s)) \<Longrightarrow>
     getApiKeyForModel m s = the (defaultApiKey (api s))"
  "\<not> truthy_opt (apiKey m) \<Longrightarrow> \<not> truthy_opt (defaultApiKey (api s)) \<Longrightarrow>
     getApiKeyForModel m s =
       (case provider m of
          GoogleGemini \<Rightarrow> geminiApiKey (api s)
        | DeepSeek \<Rightarrow> deepseekApiKey (api s)
        | _ \<Rightarrow> [])"
  by (auto simp: getApiKeyForModel_def or_else_def truthy_opt_def truthy_str_def
        split: ApiProvider.splits option.splits)

lemma missing_model_configuration:
  "getModelConfigForFeature Interview w = None \<Longrightarrow>
     startInterviewSession language w = (Inl (modelConfigNotFound Interview), w)"
  "getModelConfigForFeature Interview w = None \<Longrightarrow> interviewChatSession w = None \<Longrightarrow>
     deepseekChatHistory w = [] \<Longrightarrow>
     sendInterviewMessage p JSON_parse message language w =
       (Inl (modelConfigNotFound Interview), w)"
  "getModelConfigForFeature ReverseEngineer w = None \<Longrightarrow>
     reverseEngineerContext p prompt' language w = (Inl (modelConfigNotFound ReverseEngineer), w)"
  "getModelConfigForFeature Mentor w = None \<Longrightarrow>
     getMentorFeedback p cur ctx language ignored w = (Inl (modelConfigNotFound Mentor), w)"
  "getModelConfigForFeature Feedback w = None \<Longrightarrow>
     applySpecificFeedback p cur ctx tip locks language w =
       (Inl (modelConfigNotFound Feedback), w)"
  "getModelConfigForFeature Critique w = None \<Longrightarrow>
     getDetailedCritique p parse cur ctx language w = (Inl (modelConfigNotFound Critique), w)"
  "getModelConfigForFeature Classify w = None \<Longrightarrow>
     classifyPromptSegment p segment cur w = (Inl (modelConfigNotFound Classify), w)"
  "getModelConfigForFeature Rewrite w = None \<Longrightarrow>
     reconstructPrompt p cur ctx locks language focus w =
       (Inl (modelConfigNotFound Rewrite), w)"
  by (simp_all add: startInterviewSession_def sendInterviewMessage_def
        reverseEngineerContext_def getMentorFeedback_def applySpecificFeedback_def
        getDetailedCritique_def classifyPromptSegment_def reconstructPrompt_def)

text \<open>
  How the resolved key reaches a Gemini client. With no client cached, \<open>getAiClient(modelId)\<close>
  builds the client from the resolved key; with a client cached, it builds a new one only
  when the resolved key differs from \<open>geminiApiKey\<close>, and hands out the cached one
  otherwise, whatever key that one was built with.
\<close>

lemma getAiClient_resolved:
  assumes "getModelById modelId (customModels (api (currentSettings w))) = Some m"
    and "isGeminiModel m" and "modelId \<noteq> []"
    and "getApiKeyForModel m (currentSettings w) \<noteq> []"
  shows "aiClient w = None \<or> geminiApiKey (api (currentSettings w)) \<noteq>
             getApiKeyForModel m (currentSettings w) \<Longrightarrow>
           getAiClient (Some modelId) w =
             (Inr (getApiKeyForModel m (currentSettings w)),
              w\<lparr>aiClient := Some (getApiKeyForModel m (currentSettings w))\<rparr>)"
    and "aiClient w = Some cached \<Longrightarrow>
           geminiApiKey (api (currentSettings w)) = getApiKeyForModel m (currentSettings w) \<Longrightarrow>
           getAiClient (Some modelId) w = (Inr cached, w)"
  using assms by (auto simp: getAiClient_def truthy_opt_def truthy_str_def Let_def)

lemma threeKeyWorld_fields:
  "currentSettings threeKeyWorld = threeKeySettings"
  "aiClient threeKeyWorld = None"
  "interviewChatSession threeKeyWorld = None"
  "deepseekChatHistory threeKeyWorld = []"
  "net threeKeyWorld = 0"
  "trace threeKeyWorld = []"
  "geminiApiKey (api threeKeySettings) = ''GEMINI-KEY''"
  "defaultApiKey (api threeKeySettings) = Some ''DEFAULT-KEY''"
  "customModels (api threeKeySettings) = [keyedModel]"
  "models (api threeKeySettings) Interview = ''my-gemini''"
  "models (api threeKeySettings) Mentor = ''my-gemini''"
  by (simp_all add: threeKeyWorld_def threeKeySettings_def world0_def DEFAULT_APP_SETTINGS_def
        DEFAULT_API_CONFIG_def)

lemma twoKeyWorld_fields:
  "currentSettings twoKeyWorld = twoKeySettings"
  "aiClient twoKeyWorld = None"
  "net twoKeyWorld = 0"
  "trace twoKeyWorld = []"
  "geminiApiKey (api twoKeySettings) = ''GEMINI-KEY''"
  "defaultApiKey (api twoKeySettings) = Some []"
  "customModels (api twoKeySettings) = [keyedModel]"
  "models (api twoKeySettings) Mentor = ''my-gemini''"
  "models (api twoKeySettings) Classify = ''gemini-flash''"
  by (simp_all add: twoKeyWorld_def twoKeySettings_def world0_def DEFAULT_APP_SETTINGS_def
        DEFAULT_API_CONFIG_def DEFAULT_MODELS_def)

lemma keyedModel_lookup:
  "getModelById ''my-gemini'' [keyedModel] = Some keyedModel"
  "getModelById ''gemini-flash'' [keyedModel] =
     Some \<lparr>model_id = ''gemini-flash'', provider = GoogleGemini,
           modelName = ''gemini-3-flash-preview'', baseUrl = None, apiKey = None\<rparr>"
  "isGeminiModel keyedModel" "\<not> isOpenAICompatible keyedModel"
  "modelName keyedModel = ''gemini-2.5-pro''"
  "apiKey keyedModel = Some ''MODEL-KEY''"
  "getApiKeyForModel keyedModel threeKeySettings = ''MODEL-KEY''"
  "getApiKeyForModel keyedModel twoKeySettings = ''MODEL-KEY''"
  "getApiKeyForModel
     \<lparr>model_id = ''gemini-flash'', provider = GoogleGemini,
      modelName = ''gemini-3-flash-preview'', baseUrl = None, apiKey = None\<rparr>
     twoKeySettings = ''GEMINI-KEY''"
  by (simp_all add: getModelById_def getAllModels_def PREDEFINED_MODELS_def keyedModel_def
        isGeminiModel_def isOpenAICompatible_def getApiKeyForModel_def truthy_opt_def
        truthy_str_def twoKeyWorld_fields)

lemma interview_three_keys:
  "sendInterviewMessage (replyWith toneJson) parseExamples ''A travel planner'' English
     threeKeyWorld =
     (Inr (parseInterviewResponse parseExamples toneJson),
      threeKeyWorld\<lparr>aiClient := Some ''GEMINI-KEY'', interviewChatSession := Some interviewChat,
        net := 1, trace := [SendMessage interviewChat ''A travel planner'']\<rparr>)"
proof -
  have cfg: "getModelConfigForFeature Interview threeKeyWorld = Some keyedModel"
    by (simp add: getModelConfigForFeature_def threeKeyWorld_fields keyedModel_lookup)
  have start: "startInterviewSession English threeKeyWorld =
      (Inr (), threeKeyWorld\<lparr>aiClient := Some ''GEMINI-KEY'',
                  interviewChatSession := Some interviewChat\<rparr>)"
    by (simp add: startInterviewSession_def cfg keyedModel_lookup getAiClient_def
          truthy_opt_def threeKeyWorld_fields Let_def langName_def interviewChat_def)
  let ?w1 = "threeKeyWorld\<lparr>aiClient := Some ''GEMINI-KEY'',
                  interviewChatSession := Some interviewChat\<rparr>"
  have call: "callWithRetry_default
        (do_sendMessage (replyWith toneJson) interviewChat ''A travel planner'') ?w1 =
      (Inr (Some toneJson),
       ?w1\<lparr>net := 1, trace := [SendMessage interviewChat ''A travel planner'']\<rparr>)"
    unfolding callWithRetry_default_def
    by (rule callWithRetry_success)
       (simp add: do_sendMessage_def replyWith_def threeKeyWorld_fields)
  have ne: "toneJson \<noteq> []" by (simp add: toneJson_def)
  show ?thesis
    by (simp add: sendInterviewMessage_def threeKeyWorld_fields start
          interviewResponseText_def call or_else_def truthy_str_def ne)
qed

lemma mentor_three_keys:
  "getMentorFeedback (replyWith ''Name the traveller.'') ''Plan a trip.'' ''A travel planner''
     English [] threeKeyWorld =
     (Inr (Some (trim ''Name the traveller.'')),
      threeKeyWorld\<lparr>aiClient := Some ''MODEL-KEY'', net := 1,
        trace := [GenerateContent mentorRequest]\<rparr>)"
proof -
  have cfg: "getModelConfigForFeature Mentor threeKeyWorld = Some keyedModel"
    by (simp add: getModelConfigForFeature_def threeKeyWorld_fields keyedModel_lookup)
  have client: "getAiClient (Some (getModelForFeature Mentor threeKeyWorld)) threeKeyWorld =
      (Inr ''MODEL-KEY'', threeKeyWorld\<lparr>aiClient := Some ''MODEL-KEY''\<rparr>)"
    by (simp add: getAiClient_def getModelForFeature_def threeKeyWorld_fields keyedModel_lookup
          truthy_opt_def truthy_str_def Let_def)
  have gen: "generateWithRetry (replyWith ''Name the traveller.'') ''MODEL-KEY''
        ''gemini-2.5-pro'' (5 / 10) False
        (MentorContents ''A travel planner'' ''Plan a trip.'' [] ''English'')
        (threeKeyWorld\<lparr>aiClient := Some ''MODEL-KEY''\<rparr>) =
      (Inr (Some ''Name the traveller.''),
       threeKeyWorld\<lparr>aiClient := Some ''MODEL-KEY'', net := 1,
         trace := [GenerateContent mentorRequest]\<rparr>)"
    by (subst generateWithRetry_success[where t = "Some ''Name the traveller.''" and n' = 1])
       (simp_all add: replyWith_def threeKeyWorld_fields mentorRequest_def)
  show ?thesis
    using gen
    by (simp add: getMentorFeedback_def cfg keyedModel_lookup client langName_def
          truthy_opt_def truthy_str_def Let_def)
qed

lemma mentor_two_keys:
  "getMentorFeedback (replyWith ''Name the traveller.'') ''Plan a trip.'' ''A travel planner''
     English [] twoKeyWorld =
     (Inr (Some (trim ''Name the traveller.'')),
      twoKeyWorld\<lparr>aiClient := Some ''MODEL-KEY'', net := 1,
        trace := [GenerateContent mentorRequest]\<rparr>)"
proof -
  have cfg: "getModelConfigForFeature Mentor twoKeyWorld = Some keyedModel"
    by (simp add: getModelConfigForFeature_def twoKeyWorld_fields keyedModel_lookup)
  have client: "getAiClient (Some (getModelForFeature Mentor twoKeyWorld)) twoKeyWorld =
      (Inr ''MODEL-KEY'', twoKeyWorld\<lparr>aiClient := Some ''MODEL-KEY''\<rparr>)"
    by (simp add: getAiClient_def getModelForFeature_def twoKeyWorld_fields keyedModel_lookup
          truthy_opt_def truthy_str_def Let_def)
  have gen: "generateWithRetry (replyWith ''Name the traveller.'') ''MODEL-KEY''
        ''gemini-2.5-pro'' (5 / 10) False
        (MentorContents ''A travel planner'' ''Plan a trip.'' [] ''English'')
        (twoKeyWorld\<lparr>aiClient := Some ''MODEL-KEY''\<rparr>) =
      (Inr (Some ''Name the traveller.''),
       twoKeyWorld\<lparr>aiClient := Some ''MODEL-KEY'', net := 1,
         trace := [GenerateContent mentorRequest]\<rparr>)"
    by (subst generateWithRetry_success[where t = "Some ''Name the traveller.''" and n' = 1])
       (simp_all add: replyWith_def twoKeyWorld_fields mentorRequest_def)
  show ?thesis
    using gen
    by (simp add: getMentorFeedback_def cfg keyedModel_lookup client langName_def
          truthy_opt_def truthy_str_def Let_def)
qed

lemma classify_cached_client:
  assumes "currentSettings w = twoKeySettings" and "aiClient w = Some cached"
  shows "snd (classifyPromptSegment (replyWith t) segment fullPrompt w) =
           w\<lparr>net := Suc (net w),
              trace := trace w @
                [GenerateContent
                   \<lparr>gen_apiKey = cached, gen_model = ''gemini-3-flash-preview'',
                    gen_temperature = 1 / 10, gen_json = False,
                    gen_contents = ClassifyContents fullPrompt segment\<rparr>]\<rparr>"
proof -
  let ?flash = "\<lparr>model_id = ''gemini-flash'', provider = GoogleGemini,
           modelName = ''gemini-3-flash-preview'', baseUrl = None, apiKey = None\<rparr>"
  have cfg: "getModelConfigForFeature Classify w = Some ?flash"
    by (simp add: getModelConfigForFeature_def assms twoKeyWorld_fields keyedModel_lookup)
  have client: "getAiClient (Some (getModelForFeature Classify w)) w = (Inr cached, w)"
    by (simp add: getAiClient_def getModelForFeature_def assms twoKeyWorld_fields
          keyedModel_lookup truthy_opt_def truthy_str_def Let_def isGeminiModel_def)
  note gen = generateWithRetry_success[of "replyWith t" cached "''gemini-3-flash-preview''"
      "1 / 10" False "ClassifyContents fullPrompt segment" w "Some t" "Suc (net w)"]
  have "generateContent (replyWith t)
          \<lparr>gen_apiKey = cached, gen_model = ''gemini-3-flash-preview'',
           gen_temperature = 1 / 10, gen_json = False,
           gen_contents = ClassifyContents fullPrompt segment\<rparr> (net w) =
        (Inr (Some t), Suc (net w))"
    by (simp add: replyWith_def)
  from gen[OF this] show ?thesis
    by (simp add: classifyPromptSegment_def cfg client isOpenAICompatible_def Let_def)
qed

lemma example_configs:
  "getModelConfigForFeature Interview threeKeyWorld = Some keyedModel"
  "getModelConfigForFeature Mentor threeKeyWorld = Some keyedModel"
  "getModelConfigForFeature Classify twoKeyWorld =
     Some \<lparr>model_id = ''gemini-flash'', provider = GoogleGemini,
           modelName = ''gemini-3-flash-preview'', baseUrl = None, apiKey = None\<rparr>"
  by (simp_all add: getModelConfigForFeature_def threeKeyWorld_fields twoKeyWorld_fields
        keyedModel_lookup)

lemma interviewThenDeleted_fields:
  "getModelConfigForFeature Interview interviewThenDeleted = None"
  "interviewChatSession interviewThenDeleted =
     Some \<lparr>chat_apiKey = ''GEMINI-KEY'', chat_model = ''gemini-3-flash-preview'',
           chat_instruction = InterviewInstruction ''English'' False\<rparr>"
  "deepseekChatHistory interviewThenDeleted = []"
  "net interviewThenDeleted = 0"
  "trace interviewThenDeleted = []"
  by (simp_all add: interviewThenDeleted_def updateApiSettings_def interview_worlds
        geminiWorld_fields getModelConfigForFeature_def danglingSettings_def
        DEFAULT_APP_SETTINGS_def DEFAULT_API_CONFIG_def getModelById_def getAllModels_def
        PREDEFINED_MODELS_def)

lemma interview_after_deletion:
  "sendInterviewMessage (replyWith toneJson) parseExamples ''A travel planner'' English
     interviewThenDeleted =
     (Inr (parseInterviewResponse parseExamples toneJson),
      interviewThenDeleted\<lparr>net := 1,
        trace := [SendMessage
                    \<lparr>chat_apiKey = ''GEMINI-KEY'', chat_model = ''gemini-3-flash-preview'',
                     chat_instruction = InterviewInstruction ''English'' False\<rparr>
                    ''A travel planner'']\<rparr>)"
proof -
  have t: "sendMessage (replyWith toneJson)
      \<lparr>chat_apiKey = ''GEMINI-KEY'', chat_model = ''gemini-3-flash-preview'',
       chat_instruction = InterviewInstruction ''English'' False\<rparr>
      ''A travel planner'' (net interviewThenDeleted) = (Inr (Some toneJson), 1)"
    by (simp add: replyWith_def interviewThenDeleted_fields)
  have ne: "or_else (Some toneJson) ''{}'' = toneJson"
    by (simp add: or_else_def truthy_str_def toneJson_def)
  show ?thesis
    using sendInterviewMessage_gemini[OF interviewThenDeleted_fields(2,3) t,
            of parseExamples English]
    by (simp add: ne interviewThenDeleted_fields)
qed

text \<open>
  Claim C6 says that for every feature the key in effect is the one resolved with the
  priority model key, default key, provider key, and that an operation whose feature has no
  model configuration fails without a network call. The resolution itself has that
  priority, and the one-shot operations send the resolved key. The interview does not:
  \<open>startInterviewSession\<close> asks for its client with no model id, so with the interview
  routed to a model that has a key of its own, the default key and the Gemini key set as
  well, the resolved key is the model's and the turn is sent on a chat built with the
  Gemini key, while the mentor on the same model sends the model's key. A cached client is
  handed out whenever the resolved key equals the Gemini key: after a request of the mentor,
  the classification, whose resolved key is the Gemini key, is sent by the client built with
  the mentor model's key. And a turn on a session that was started before the interview
  model was deleted is sent.
\<close>

theorem interview_key_not_resolved:
  "getModelConfigForFeature Interview threeKeyWorld = Some keyedModel
   \<and> apiKey keyedModel = Some ''MODEL-KEY''
   \<and> defaultApiKey (api (currentSettings threeKeyWorld)) = Some ''DEFAULT-KEY''
   \<and> geminiApiKey (api (currentSettings threeKeyWorld)) = ''GEMINI-KEY''
   \<and> getApiKeyForModel keyedModel (currentSettings threeKeyWorld) = ''MODEL-KEY''
   \<and> trace (snd (sendInterviewMessage (replyWith toneJson) parseExamples ''A travel planner''
                   English threeKeyWorld)) =
       [SendMessage interviewChat ''A travel planner'']
   \<and> chat_apiKey interviewChat = ''GEMINI-KEY''
   \<and> getModelConfigForFeature Mentor threeKeyWorld = Some keyedModel
   \<and> trace (snd (getMentorFeedback (replyWith ''Name the traveller.'') ''Plan a trip.''
                   ''A travel planner'' English [] threeKeyWorld)) =
       [GenerateContent mentorRequest]
   \<and> gen_apiKey mentorRequest = ''MODEL-KEY''
   \<and> getModelConfigForFeature Classify twoKeyWorld =
       Some \<lparr>model_id = ''gemini-flash'', provider = GoogleGemini,
             modelName = ''gemini-3-flash-preview'', baseUrl = None, apiKey = None\<rparr>
   \<and> getApiKeyForModel
         \<lparr>model_id = ''gemini-flash'', provider = GoogleGemini,
          modelName = ''gemini-3-flash-preview'', baseUrl = None, apiKey = None\<rparr>
         (currentSettings twoKeyWorld) = ''GEMINI-KEY''
   \<and> trace (snd (classifyPromptSegment (replyWith ''Task'') ''a trip'' ''Plan a trip.''
                   (snd (getMentorFeedback (replyWith ''Name the traveller.'') ''Plan a trip.''
                           ''A travel planner'' English [] twoKeyWorld)))) =
       [GenerateContent mentorRequest, GenerateContent classifyRequest]
   \<and> gen_apiKey classifyRequest = ''MODEL-KEY''
   \<and> getModelConfigForFeature Interview interviewThenDeleted = None
   \<and> trace interviewThenDeleted = []
   \<and> fst (sendInterviewMessage (replyWith toneJson) parseExamples ''A travel planner'' English
             interviewThenDeleted) = Inr (parseInterviewResponse parseExamples toneJson)
   \<and> trace (snd (sendInterviewMessage (replyWith toneJson) parseExamples ''A travel planner''
                   English interviewThenDeleted)) =
       [SendMessage
          \<lparr>chat_apiKey = ''GEMINI-KEY'', chat_model = ''gemini-3-flash-preview'',
           chat_instruction = InterviewInstruction ''English'' False\<rparr>
          ''A travel planner'']"
proof -
  have cached: "trace (snd (classifyPromptSegment (replyWith ''Task'') ''a trip''
        ''Plan a trip.''
        (snd (getMentorFeedback (replyWith ''Name the traveller.'') ''Plan a trip.''
                ''A travel planner'' English [] twoKeyWorld)))) =
      [GenerateContent mentorRequest, GenerateContent classifyRequest]"
    unfolding mentor_two_keys snd_conv
    by (subst classify_cached_client[where cached = "''MODEL-KEY''"])
       (simp_all add: twoKeyWorld_fields classifyRequest_def)
  show ?thesis
    unfolding cached
    by (simp add: interview_three_keys mentor_three_keys interview_after_deletion
          interviewThenDeleted_fields threeKeyWorld_fields twoKeyWorld_fields
          keyedModel_lookup example_configs interviewChat_def mentorRequest_def
          classifyRequest_def)
qed

section \<open>The editor: deep scan\<close>

text \<open>
  The continuation keeps the prompt and clears the flags, whatever the outcome. On entries
  whose \<open>originalText\<close> is a string, the filter keeps exactly those whose text is a
  substring of the prompt of that moment.
\<close>

lemma handleDeepScan_finish_prompt:
  "prompt (handleDeepScan_finish numberToString outcome st) = prompt st"
  "isProcessing (handleDeepScan_finish numberToString outcome st) = False"
  by (simp_all add: handleDeepScan_finish_def split: sum.splits)

lemma validSuggestions_strings:
  assumes "\<forall>x \<in> set s. \<exists>t. originalText x = Some (JString t)"
  shows "validSuggestions numberToString current s =
           Inr (filter (\<lambda>x. \<exists>t. originalText x = Some (JString t) \<and> sublist t current) s)"
  using assms
  by (induction s)
     (auto simp: includes_value_def ToString_simps str_includes_sublist)

lemma deep_scan_string_entries:
  assumes "\<forall>x \<in> set s. \<exists>t. originalText x = Some (JString t)"
  shows "suggestions (handleDeepScan_finish numberToString (Inr s) st) =
           filter (\<lambda>x. \<exists>t. originalText x = Some (JString t) \<and> sublist t (prompt st)) s"
  by (simp add: handleDeepScan_finish_def validSuggestions_strings[OF assms]
        promptRef_current_def)

text \<open>
  The scan is started on a prompt that contains \<open>helpful\<close>, and the prompt is edited to one
  that does not before the critique arrives: the entry for \<open>helpful\<close> is dropped.
\<close>

lemma deep_scan_drops_absent:
  "suggestions
     (handleDeepScan_finish numberToString (Inr [suggHelpful, suggBriefly])
        (updatePrompt ''You are an assistant. Answer briefly.'' busyScanning)) = [suggBriefly]"
  "suggestions
     (handleDeepScan_finish numberToString (Inr [suggHelpful, suggBriefly]) busyScanning) =
     [suggHelpful, suggBriefly]"
proof -
  have s: "\<forall>x \<in> set [suggHelpful, suggBriefly]. \<exists>t. originalText x = Some (JString t)"
    by (simp add: suggHelpful_def suggBriefly_def)
  have p: "prompt (updatePrompt ''You are an assistant. Answer briefly.'' busyScanning) =
             ''You are an assistant. Answer briefly.''"
    "prompt busyScanning = ''You are a helpful assistant. Answer briefly.''"
    by (simp_all add: updatePrompt_def busyScanning_simps)
  have a: "\<not> sublist ''helpful'' ''You are an assistant. Answer briefly.''"
    "sublist ''Answer briefly'' ''You are an assistant. Answer briefly.''"
    "sublist ''helpful'' ''You are a helpful assistant. Answer briefly.''"
    "sublist ''Answer briefly'' ''You are a helpful assistant. Answer briefly.''"
    unfolding str_includes_sublist[symmetric] by simp_all
  show "suggestions
     (handleDeepScan_finish numberToString (Inr [suggHelpful, suggBriefly])
        (updatePrompt ''You are an assistant. Answer briefly.'' busyScanning)) = [suggBriefly]"
    unfolding deep_scan_string_entries[OF s] p
    by (simp add: a suggHelpful_def suggBriefly_def)
  show "suggestions
     (handleDeepScan_finish numberToString (Inr [suggHelpful, suggBriefly]) busyScanning) =
     [suggHelpful, suggBriefly]"
    unfolding deep_scan_string_entries[OF s] p
    by (simp add: a suggHelpful_def suggBriefly_def)
qed

text \<open>The critique of the example, from the request to the list the service returns.\<close>

lemma critique_without_original:
  "getDetailedCritique (replyWith critiqueJson) parseCritique
     ''Explain why the function returns undefined.'' ''A code tutor'' English geminiWorld =
     (Inr [noOriginal],
      geminiWorld\<lparr>aiClient := Some ''GEMINI-KEY'', net := 2,
        trace :=
          [GenerateContent
             \<lparr>gen_apiKey = ''GEMINI-KEY'', gen_model = ''gemini-3-pro-preview'',
              gen_temperature = 1 / 10, gen_json = True,
              gen_contents =
                CritiqueContents ''A code tutor''
                  ''Explain why the function returns undefined.'' ''English''\<rparr>]\<rparr>)"
proof -
  let ?pro = "\<lparr>model_id = ''gemini-pro'', provider = GoogleGemini,
           modelName = ''gemini-3-pro-preview'', baseUrl = None, apiKey = None\<rparr>"
  let ?w1 = "geminiWorld\<lparr>aiClient := Some ''GEMINI-KEY''\<rparr>"
  let ?rq = "\<lparr>gen_apiKey = ''GEMINI-KEY'', gen_model = ''gemini-3-pro-preview'',
              gen_temperature = 1 / 10, gen_json = True,
              gen_contents =
                CritiqueContents ''A code tutor''
                  ''Explain why the function returns undefined.'' ''English''\<rparr>"
  have cfg: "getModelConfigForFeature Critique geminiWorld = Some ?pro"
    by (simp add: getModelConfigForFeature_def geminiWorld_def geminiSettings_def world0_def
          DEFAULT_APP_SETTINGS_def DEFAULT_API_CONFIG_def DEFAULT_MODELS_def getModelById_def
          getAllModels_def PREDEFINED_MODELS_def)
  have client: "getAiClient (Some (getModelForFeature Critique geminiWorld)) geminiWorld =
      (Inr ''GEMINI-KEY'', ?w1)"
    by (simp add: getModelForFeature_def getAiClient_def geminiWorld_def geminiSettings_def
          world0_def DEFAULT_APP_SETTINGS_def DEFAULT_API_CONFIG_def DEFAULT_MODELS_def
          getModelById_def getAllModels_def PREDEFINED_MODELS_def truthy_opt_def
          truthy_str_def isGeminiModel_def getApiKeyForModel_def or_else_def Let_def)
  have "generateContent (replyWith critiqueJson) ?rq (net ?w1) = (Inr (Some critiqueJson), 1)"
    by (simp add: replyWith_def geminiWorld_fields)
  from generateWithRetry_success[OF this]
  have gen: "generateWithRetry (replyWith critiqueJson) ''GEMINI-KEY''
        ''gemini-3-pro-preview'' (1 / 10) True
        (CritiqueContents ''A code tutor'' ''Explain why the function returns undefined.''
           ''English'') ?w1 =
      (Inr (Some critiqueJson), ?w1\<lparr>net := 1, trace := [GenerateContent ?rq]\<rparr>)"
    by (simp add: geminiWorld_fields)
  have ne: "or_else (Some critiqueJson) ''[]'' = critiqueJson"
    by (simp add: or_else_def truthy_str_def critiqueJson_def)
  have d: "digits 1 = ''1''" by code_simp
  have items: "critiqueOfText (replyWith critiqueJson) parseCritique critiqueJson
        (?w1\<lparr>net := 1, trace := [GenerateContent ?rq]\<rparr>) =
      ([noOriginal], ?w1\<lparr>net := 2, trace := [GenerateContent ?rq]\<rparr>)"
    using d
    by (simp add: critiqueOfText_def parseCritique_def critiqueValue_def replyWith_def
          spreadWithId_def ownProperty_def noOriginal_def)
  show ?thesis
    using gen items
    by (simp add: getDetailedCritique_def cfg client isOpenAICompatible_def langName_def
          Let_def ne)
qed

text \<open>
  Claim C3 says that every stored suggestion's \<open>originalText\<close> is a substring of the
  prompt. The service returns the entries of the parsed array unchecked, and the filter of
  the editor converts \<open>originalText\<close> to a string before the test. For a prompt that
  contains the word \<open>undefined\<close>, an entry that has no \<open>originalText\<close> passes the filter
  and is stored: the stored suggestion has no original text at all. In the same way an
  entry whose \<open>originalText\<close> is \<open>null\<close> is stored for a prompt that contains \<open>null\<close>,
  and an entry whose \<open>originalText\<close> is the number 5 is stored when the prompt contains
  the text that number converts to.
\<close>

theorem deep_scan_stores_non_string:
  "prompt undefinedState = ''Explain why the function returns undefined.''
   \<and> \<not> isProcessing undefinedState
   \<and> parseCritique critiqueJson = Some critiqueValue
   \<and> fst (getDetailedCritique (replyWith critiqueJson) parseCritique
             ''Explain why the function returns undefined.'' ''A code tutor'' English
             geminiWorld) = Inr [noOriginal]
   \<and> originalText noOriginal = None
   \<and> suggestions
         (fst (handleDeepScan numberToString (replyWith critiqueJson) parseCritique
                 ''A code tutor'' English (undefinedState, geminiWorld))) = [noOriginal]
   \<and> prompt
         (fst (handleDeepScan numberToString (replyWith critiqueJson) parseCritique
                 ''A code tutor'' English (undefinedState, geminiWorld))) =
       ''Explain why the function returns undefined.''
   \<and> prompt nullState = ''Answer null when the user is unknown.''
   \<and> originalText nullOriginal = Some JNull
   \<and> suggestions
         (handleDeepScan_finish numberToString (Inr [nullOriginal])
            (fst (handleDeepScan_start nullState))) = [nullOriginal]
   \<and> prompt topFiveState = ''List the top 5 restaurants.''
   \<and> originalText numberOriginal = Some (JNumber 5)
   \<and> suggestions
         (handleDeepScan_finish numberToString (Inr [numberOriginal])
            (fst (handleDeepScan_start topFiveState))) =
       (if sublist (numberToString 5) ''List the top 5 restaurants.'' then [numberOriginal]
        else [])"
proof -
  have p: "prompt undefinedState = ''Explain why the function returns undefined.''"
    "\<not> isProcessing undefinedState"
    "prompt nullState = ''Answer null when the user is unknown.''"
    "\<not> isProcessing nullState"
    "prompt topFiveState = ''List the top 5 restaurants.''"
    "\<not> isProcessing topFiveState"
    by (simp_all add: undefinedState_def nullState_def topFiveState_def
          useEditorState_init_def)
  have o: "originalText noOriginal = None" "originalText nullOriginal = Some JNull"
    "originalText numberOriginal = Some (JNumber 5)"
    by (simp_all add: noOriginal_def nullOriginal_def numberOriginal_def)
  have run: "fst (handleDeepScan numberToString (replyWith critiqueJson) parseCritique
                 ''A code tutor'' English (undefinedState, geminiWorld)) =
      handleDeepScan_finish numberToString (Inr [noOriginal])
        (fst (handleDeepScan_start undefinedState))"
    by (simp add: handleDeepScan_def handleDeepScan_start_def p critique_without_original)
  have a: "suggestions (handleDeepScan_finish numberToString (Inr [noOriginal])
        (fst (handleDeepScan_start undefinedState))) = [noOriginal]"
    by (simp add: handleDeepScan_finish_def handleDeepScan_start_def p o promptRef_current_def
          includes_value_def ToString_simps)
  have b: "suggestions (handleDeepScan_finish numberToString (Inr [nullOriginal])
        (fst (handleDeepScan_start nullState))) = [nullOriginal]"
    by (simp add: handleDeepScan_finish_def handleDeepScan_start_def p o promptRef_current_def
          includes_value_def ToString_simps)
  have n: "suggestions (handleDeepScan_finish numberToString (Inr [numberOriginal])
        (fst (handleDeepScan_start topFiveState))) =
      (if sublist (numberToString 5) ''List the top 5 restaurants.'' then [numberOriginal]
       else [])"
    by (simp add: handleDeepScan_finish_def handleDeepScan_start_def p o promptRef_current_def
          includes_value_def ToString_def str_includes_sublist)
  have c: "prompt (handleDeepScan_finish numberToString (Inr [noOriginal])
        (fst (handleDeepScan_start undefinedState))) =
      ''Explain why the function returns undefined.''"
    by (simp add: handleDeepScan_finish_prompt handleDeepScan_start_def p)
  show ?thesis
    unfolding run n
    by (simp add: p o a b c critique_without_original parseCritique_def)
qed

end
